theory Spec2Isabelle
  imports Main "HOL-Library.Word"
begin

unbundle bit_operations_syntax

section \<open>Error codes and C integers\<close>

text \<open>
  Modelled from the spec: the error kinds of its section 7. The functions of libbpf.c
  return a C \<open>int\<close>, 0 for success and a negated error code for failure. The numbers
  of the codes are declared in errno.h and in \<open>enum libbpf_errno\<close> of libbpf.h (which
  starts at 4000); neither header is part of libbpf.c, the values below are the ones
  they declare.
\<close>

definition ENOENT :: int where "ENOENT = 2"
definition ENOMEM :: int where "ENOMEM = 12"
definition EINVAL :: int where "EINVAL = 22"
definition LIBBPF_ERRNO__LIBELF :: int where "LIBBPF_ERRNO__LIBELF = 4000"
definition LIBBPF_ERRNO__FORMAT :: int where "LIBBPF_ERRNO__FORMAT = 4001"
definition LIBBPF_ERRNO__KVERSION :: int where "LIBBPF_ERRNO__KVERSION = 4002"
definition LIBBPF_ERRNO__ENDIAN :: int where "LIBBPF_ERRNO__ENDIAN = 4003"
definition LIBBPF_ERRNO__INTERNAL :: int where "LIBBPF_ERRNO__INTERNAL = 4004"
definition LIBBPF_ERRNO__RELOC :: int where "LIBBPF_ERRNO__RELOC = 4005"
definition LIBBPF_ERRNO__LOAD :: int where "LIBBPF_ERRNO__LOAD = 4006"
definition LIBBPF_ERRNO__VERIFY :: int where "LIBBPF_ERRNO__VERIFY = 4007"
definition LIBBPF_ERRNO__PROG2BIG :: int where "LIBBPF_ERRNO__PROG2BIG = 4008"
definition LIBBPF_ERRNO__KVER :: int where "LIBBPF_ERRNO__KVER = 4009"
definition LIBBPF_ERRNO__PROGTYPE :: int where "LIBBPF_ERRNO__PROGTYPE = 4010"

text \<open>Conversion of a C \<open>int\<close> to \<open>size_t\<close> (64 bits): the value modulo \<open>2 ^ 64\<close>.\<close>

definition size_t_of_int :: "int \<Rightarrow> nat" where
  "size_t_of_int i = nat (i mod 2 ^ 64)"

text \<open>Conversion of a \<open>size_t\<close> to a C \<open>int\<close> (32 bits, two's complement).\<close>

definition int_of_size_t :: "nat \<Rightarrow> int" where
  "int_of_size_t n = sint (word_of_nat n :: 32 word)"

section \<open>Data model\<close>

text \<open>
  \<open>struct bpf_insn\<close> is declared in linux/bpf.h, not in libbpf.c: opcode, two 4-bit
  registers, a 16-bit offset and a signed 32-bit immediate.
\<close>

record bpf_insn =
  code :: "8 word"
  dst_reg :: "4 word"
  src_reg :: "4 word"
  off :: "16 word"
  imm :: "32 word"

text \<open>
  \<open>BPF_PSEUDO_MAP_FD\<close> and \<open>BPF_PSEUDO_CALL\<close> (linux/bpf.h) are both 1.
\<close>

definition BPF_PSEUDO_MAP_FD :: "4 word" where "BPF_PSEUDO_MAP_FD = 1"
definition BPF_PSEUDO_CALL :: "4 word" where "BPF_PSEUDO_CALL = 1"

text \<open>\<open>enum bpf_prog_type\<close>, the kinds named in libbpf.c.\<close>

datatype bpf_prog_type =
    BPF_PROG_TYPE_UNSPEC
  | BPF_PROG_TYPE_SOCKET_FILTER
  | BPF_PROG_TYPE_KPROBE
  | BPF_PROG_TYPE_SCHED_CLS
  | BPF_PROG_TYPE_SCHED_ACT
  | BPF_PROG_TYPE_TRACEPOINT
  | BPF_PROG_TYPE_XDP
  | BPF_PROG_TYPE_PERF_EVENT
  | BPF_PROG_TYPE_CGROUP_SKB
  | BPF_PROG_TYPE_CGROUP_SOCK
  | BPF_PROG_TYPE_LWT_IN
  | BPF_PROG_TYPE_LWT_OUT
  | BPF_PROG_TYPE_LWT_XMIT
  | BPF_PROG_TYPE_SOCK_OPS
  | BPF_PROG_TYPE_SK_SKB
  | BPF_PROG_TYPE_CGROUP_DEVICE
  | BPF_PROG_TYPE_SK_MSG
  | BPF_PROG_TYPE_RAW_TRACEPOINT
  | BPF_PROG_TYPE_CGROUP_SOCK_ADDR
  | BPF_PROG_TYPE_LWT_SEG6LOCAL
  | BPF_PROG_TYPE_LIRC_MODE2

text \<open>\<open>struct bpf_load_program_attr\<close> (bpf.h), as \<open>load_program\<close> fills it.\<close>

record bpf_load_program_attr =
  la_prog_type :: bpf_prog_type
  la_expected_attach_type :: int
  la_name :: "string option"
  la_insns :: "bpf_insn list option"
  la_insns_cnt :: nat
  la_license :: string
  la_kern_version :: "32 word"
  la_prog_ifindex :: int

text \<open>\<open>struct bpf_create_map_attr\<close> (bpf.h), as \<open>bpf_object__create_maps\<close> fills it.\<close>

record bpf_create_map_attr =
  ca_name :: "string option"
  ca_map_type :: "32 word"
  ca_map_flags :: "32 word"
  ca_key_size :: "32 word"
  ca_value_size :: "32 word"
  ca_max_entries :: "32 word"
  ca_btf_fd :: int
  ca_btf_key_type_id :: "32 word"
  ca_btf_value_type_id :: "32 word"
  ca_map_ifindex :: int

text \<open>
  Modelled from the spec: the fixed definition record of a map (kind, key size, value
  size, capacity, flags). \<open>struct bpf_map_def\<close> is declared in libbpf.h, not in
  libbpf.c: five \<open>unsigned int\<close> fields, 20 bytes.
\<close>

record bpf_map_def =
  md_type :: "32 word"
  md_key_size :: "32 word"
  md_value_size :: "32 word"
  md_max_entries :: "32 word"
  md_map_flags :: "32 word"

definition sizeof_bpf_map_def :: nat where "sizeof_bpf_map_def = 20"

definition zero_map_def :: bpf_map_def where
  "zero_map_def = \<lparr> md_type = 0, md_key_size = 0, md_value_size = 0, md_max_entries = 0,
                      md_map_flags = 0 \<rparr>"

text \<open>
  \<open>struct bpf_map\<close> (libbpf.c:168). The name is a \<open>char *\<close> that may be NULL. The
  fields \<open>priv\<close> and \<open>clear_priv\<close> belong to the user of the library and are left out.
\<close>

record bpf_map =
  m_fd :: int
  m_name :: "string option"
  m_offset :: nat
  m_map_ifindex :: int
  m_def :: bpf_map_def
  m_btf_key_type_id :: "32 word"
  m_btf_value_type_id :: "32 word"

text \<open>\<open>struct bpf_map_info\<close> (linux/bpf.h), the fields \<open>bpf_map__reuse_fd\<close> reads.\<close>

record bpf_map_info =
  mi_name :: string
  mi_type :: "32 word"
  mi_key_size :: "32 word"
  mi_value_size :: "32 word"
  mi_max_entries :: "32 word"
  mi_map_flags :: "32 word"
  mi_btf_key_type_id :: "32 word"
  mi_btf_value_type_id :: "32 word"

section \<open>The object file as libelf presents it\<close>

text \<open>
  libelf and gelf are outside the library. Their records keep the fields libbpf.c
  reads. An \<open>Elf_Data\<close> carries, next to its bytes and its size, what
  \<open>gelf_getsym\<close> and \<open>gelf_getrel\<close> answer for each index (\<open>None\<close> where they
  fail). A section carries what \<open>gelf_getshdr\<close> and \<open>elf_getdata\<close> answer for it, and
  the handle what \<open>gelf_getehdr\<close>, \<open>elf_rawdata\<close> of the section-name table and
  \<open>elf_strptr\<close> answer. Section \<open>k\<close> of the file, for \<open>k \<ge> 1\<close>, is element
  \<open>k - 1\<close> of \<open>elf_scns\<close>; section 0 is the empty section every file starts with.
\<close>

record GElf_Sym =
  st_name :: nat
  st_info :: "8 word"
  st_shndx :: nat
  st_value :: nat

record GElf_Rel =
  r_offset :: nat
  r_info :: "64 word"

record GElf_Shdr =
  sh_type :: nat
  sh_flags :: "64 word"
  sh_link :: nat
  sh_info :: nat
  sh_size :: nat
  sh_entsize :: nat

record GElf_Ehdr =
  e_ident_data :: nat
  e_type :: nat
  e_machine :: nat

record Elf_Data =
  d_buf :: "8 word list"
  d_size :: nat
  d_syms :: "GElf_Sym option list"
  d_rels :: "GElf_Rel option list"

record Elf_Scn =
  scn_shdr :: "GElf_Shdr option"
  scn_name :: "string option"
  scn_data :: "Elf_Data option"

record Elf =
  elf_scns :: "Elf_Scn list"
  elf_ehdr :: "GElf_Ehdr option"
  elf_shstr_rawdata :: bool
  elf_strptr :: "nat \<Rightarrow> nat \<Rightarrow> string option"

definition gelf_getsym :: "Elf_Data \<Rightarrow> nat \<Rightarrow> GElf_Sym option" where
  "gelf_getsym data i = (if i < length (d_syms data) then d_syms data ! i else None)"

definition gelf_getrel :: "Elf_Data \<Rightarrow> nat \<Rightarrow> GElf_Rel option" where
  "gelf_getrel data i = (if i < length (d_rels data) then d_rels data ! i else None)"

definition null_scn :: Elf_Scn where
  "null_scn = \<lparr> scn_shdr = Some \<lparr> sh_type = 0, sh_flags = 0, sh_link = 0, sh_info = 0,
                                     sh_size = 0, sh_entsize = 0 \<rparr>,
                 scn_name = Some [], scn_data = None \<rparr>"

definition elf_getscn :: "Elf \<Rightarrow> int \<Rightarrow> Elf_Scn option" where
  "elf_getscn elf idx =
     (if idx = 0 then Some null_scn
      else if 0 < idx \<and> idx \<le> int (length (elf_scns elf)) then Some (elf_scns elf ! (nat idx - 1))
      else None)"

text \<open>Constants of elf.h and gelf.h, and the sizes of the records read from the file.\<close>

definition SHT_PROGBITS :: nat where "SHT_PROGBITS = 1"
definition SHT_SYMTAB :: nat where "SHT_SYMTAB = 2"
definition SHT_REL :: nat where "SHT_REL = 9"
definition SHF_EXECINSTR :: "64 word" where "SHF_EXECINSTR = 4"
definition ET_REL :: nat where "ET_REL = 1"
definition EM_BPF :: nat where "EM_BPF = 247"
definition ELFDATA2LSB :: nat where "ELFDATA2LSB = 1"
definition ELFDATA2MSB :: nat where "ELFDATA2MSB = 2"
definition STB_GLOBAL :: "8 word" where "STB_GLOBAL = 1"
definition sizeof_GElf_Sym :: nat where "sizeof_GElf_Sym = 24"
definition sizeof_bpf_insn :: nat where "sizeof_bpf_insn = 8"

definition GELF_ST_BIND :: "8 word \<Rightarrow> 8 word" where
  "GELF_ST_BIND info = drop_bit 4 info"

definition GELF_R_SYM :: "64 word \<Rightarrow> nat" where
  "GELF_R_SYM info = unat (drop_bit 32 info)"

section \<open>Programs and objects\<close>

text \<open>
  A relocation record (libbpf.c:142): the tag, the instruction index and the union of
  \<open>map_idx\<close> and \<open>text_off\<close>, which is one \<open>int\<close> read under either name.
\<close>

datatype reloc_type = RELO_LD64 | RELO_CALL

record reloc_desc =
  r_type :: reloc_type
  r_insn_idx :: int
  r_map_idx_text_off :: int

text \<open>
  \<open>struct bpf_prog_prep_result\<close> (libbpf.h) and the preprocessor callback. The
  callback is user code; it is taken as a function of the instance number and the
  program's instructions, returning its error code and the result record. Of the
  out-pointer \<open>pfd\<close> only whether it is set is kept; a store through it is an event.
\<close>

record bpf_prog_prep_result =
  new_insn_ptr :: "bpf_insn list option"
  new_insn_cnt :: int
  pfd_set :: bool

type_synonym bpf_program_prep_t =
  "int \<Rightarrow> bpf_insn list option \<Rightarrow> int \<Rightarrow> int \<times> bpf_prog_prep_result"

text \<open>
  \<open>struct bpf_program\<close> (libbpf.c:132). Pointers that may be NULL are options; a
  buffer is the list of its elements. The back pointer \<open>obj\<close> is replaced by passing
  the object, \<open>priv\<close> and \<open>clear_priv\<close> belong to the user and are left out.
\<close>

record bpf_program =
  p_idx :: int
  p_name :: "string option"
  p_prog_ifindex :: int
  p_section_name :: "string option"
  p_insns :: "bpf_insn list option"
  p_insns_cnt :: nat
  p_main_prog_cnt :: nat
  p_type :: bpf_prog_type
  p_reloc_desc :: "reloc_desc list option"
  p_nr_reloc :: int
  p_instances_nr :: int
  p_instances_fds :: "int list option"
  p_preprocessor :: "bpf_program_prep_t option"
  p_expected_attach_type :: int

text \<open>
  The type metadata handle \<open>struct btf\<close> is opaque to libbpf.c; it is represented by
  the answers of the accessors the file calls. A \<open>struct btf_type\<close> is followed in
  memory by its members.
\<close>

record btf_type =
  bt_info :: "32 word"
  bt_members :: "32 word list"

record btf =
  btf_find_by_name :: "string \<Rightarrow> int"
  btf_type_by_id :: "int \<Rightarrow> btf_type option"
  btf_resolve_size :: "32 word \<Rightarrow> int"
  btf_fd :: int

text \<open>
  \<open>struct bpf_object\<close> (libbpf.c:182). \<open>programs\<close> with \<open>nr_programs\<close> and \<open>maps\<close>
  with \<open>nr_maps\<close> are lists, and so is \<open>efile.reloc\<close> with \<open>efile.nr_reloc\<close>. The
  fields of \<open>efile\<close> carry the prefix of the object. The list of all objects, \<open>priv\<close>
  and \<open>clear_priv\<close> are left out.
\<close>

record bpf_object =
  o_license :: string
  o_kern_version :: "32 word"
  o_programs :: "bpf_program list"
  o_maps :: "bpf_map list"
  o_loaded :: bool
  o_has_pseudo_calls :: bool
  o_efile_fd :: int
  o_obj_buf_sz :: nat
  o_elf :: "Elf option"
  o_ehdr :: "GElf_Ehdr option"
  o_symbols :: "Elf_Data option"
  o_strtabidx :: nat
  o_reloc :: "(GElf_Shdr \<times> Elf_Data) list"
  o_maps_shndx :: int
  o_text_shndx :: int
  o_btf :: "btf option"
  o_path :: string

text \<open>A buffer pointer as the list of its elements; NULL has none.\<close>

definition buffer :: "'a list option \<Rightarrow> 'a list" where
  "buffer p = (case p of None \<Rightarrow> [] | Some xs \<Rightarrow> xs)"

section \<open>The world outside the library\<close>

text \<open>
  The kernel, the C library and the descriptor table are not part of libbpf.c. Every
  call that leaves the library is recorded as an event; what the call returns is given
  by an oracle that may depend on everything that happened before. A function of the
  library takes the events so far and returns them extended.
\<close>

datatype event =
    Alloc
  | ProgLoad bpf_load_program_attr bool
  | MapCreate bpf_create_map_attr
  | Close int
  | GetInfo int
  | OpenRoot
  | Dup3 int int
  | StorePfd int int
  | OpenFile string
  | ElfBegin
  | ElfEnd
  | BtfNew
  | BtfFree

record world =
  w_alloc :: "event list \<Rightarrow> bool"
  w_prog_load :: "event list \<Rightarrow> bpf_load_program_attr \<Rightarrow> bool \<Rightarrow> int \<times> string"
  w_map_create :: "event list \<Rightarrow> bpf_create_map_attr \<Rightarrow> int"
  w_close :: "event list \<Rightarrow> int \<Rightarrow> int"
  w_get_info :: "event list \<Rightarrow> int \<Rightarrow> int \<times> bpf_map_info"
  w_open_root :: "event list \<Rightarrow> int"
  w_dup3 :: "event list \<Rightarrow> int \<Rightarrow> int \<Rightarrow> int"
  w_errno :: "event list \<Rightarrow> int"

text \<open>
  The macro \<open>zclose(fd)\<close> (libbpf.c:113): closes a non-negative descriptor and yields
  what \<open>close\<close> returned, 0 otherwise; in both cases the macro then stores -1 in the
  variable, which the caller's model does.
\<close>

definition zclose :: "world \<Rightarrow> event list \<Rightarrow> int \<Rightarrow> int \<times> event list" where
  "zclose w tr fd = (if fd \<ge> 0 then (w_close w tr fd, tr @ [Close fd]) else (0, tr))"

text \<open>
  Modelled from the spec: the kernel's hard maximum of 4096 instructions.
  \<open>BPF_MAXINSNS\<close> is declared in linux/bpf_common.h, not in libbpf.c.
\<close>

definition BPF_MAXINSNS :: nat where "BPF_MAXINSNS = 4096"

section \<open>Program submission\<close>

text \<open>
  \<open>load_program\<close> (libbpf.c:1289). The result is the returned \<open>int\<close>, the value
  written through \<open>pfd\<close> (if any) and the extended event list. The flag of a
  \<open>ProgLoad\<close> event says whether a log buffer was handed to the kernel; the kernel's
  answer is its return value and the text it left in that buffer.
\<close>

definition load_program ::
  "world \<Rightarrow> event list \<Rightarrow> bpf_prog_type \<Rightarrow> int \<Rightarrow> string option \<Rightarrow> bpf_insn list option
     \<Rightarrow> int \<Rightarrow> string \<Rightarrow> 32 word \<Rightarrow> int \<Rightarrow> int \<times> int option \<times> event list" where
  "load_program w tr type expected_attach_type name insns insns_cnt license kern_version
      prog_ifindex =
    (let load_attr = \<lparr> la_prog_type = type,
                        la_expected_attach_type = expected_attach_type,
                        la_name = name, la_insns = insns,
                        la_insns_cnt = size_t_of_int insns_cnt,
                        la_license = license, la_kern_version = kern_version,
                        la_prog_ifindex = prog_ifindex \<rparr>
     in if la_insns load_attr = None \<or> la_insns_cnt load_attr = 0 then (- EINVAL, None, tr)
        else
          let log_buf = w_alloc w tr;
              tr1 = tr @ [Alloc];
              (ret, log) = w_prog_load w tr1 load_attr log_buf;
              tr2 = tr1 @ [ProgLoad load_attr log_buf]
          in if ret \<ge> 0 then (0, Some ret, tr2)
             else if log_buf \<and> log \<noteq> [] then (- LIBBPF_ERRNO__VERIFY, None, tr2)
             else if la_insns_cnt load_attr \<ge> BPF_MAXINSNS
               then (- LIBBPF_ERRNO__PROG2BIG, None, tr2)
             else if la_prog_type load_attr \<noteq> BPF_PROG_TYPE_KPROBE then
               (let load_attr' = load_attr \<lparr> la_prog_type := BPF_PROG_TYPE_KPROBE,
                                              la_expected_attach_type := 0 \<rparr>;
                    fd = fst (w_prog_load w tr2 load_attr' False);
                    tr3 = tr2 @ [ProgLoad load_attr' False]
                in if fd \<ge> 0 then (- LIBBPF_ERRNO__PROGTYPE, None, tr3 @ [Close fd])
                   else if log_buf then (- LIBBPF_ERRNO__KVER, None, tr3)
                   else (- LIBBPF_ERRNO__LOAD, None, tr3))
             else if log_buf then (- LIBBPF_ERRNO__KVER, None, tr2)
             else (- LIBBPF_ERRNO__LOAD, None, tr2))"

text \<open>The submissions to the kernel among the events.\<close>

fun submissions :: "event list \<Rightarrow> bpf_load_program_attr list" where
  "submissions [] = []"
| "submissions (ProgLoad a l # es) = a # submissions es"
| "submissions (e # es) = submissions es"

text \<open>The descriptors the library closed, among the events.\<close>

fun closes :: "event list \<Rightarrow> int list" where
  "closes [] = []"
| "closes (Close fd # es) = fd # closes es"
| "closes (e # es) = closes es"

section \<open>Building the map table\<close>

text \<open>
  A \<open>struct bpf_map_def\<close> in memory: its five fields in declaration order, each four
  bytes, least significant byte first (the host is taken to be little-endian, which is
  also what \<open>bpf_object__check_endianness\<close> below accepts of the file).
\<close>

definition le_word :: "8 word list \<Rightarrow> 32 word" where
  "le_word bs = foldr (\<lambda>b w. ucast b OR push_bit 8 w) bs 0"

definition bytes_of_u32 :: "32 word \<Rightarrow> 8 word list" where
  "bytes_of_u32 w = map (\<lambda>k. ucast (drop_bit (8 * k) w)) [0 ..< 4]"

definition bytes_of_def :: "bpf_map_def \<Rightarrow> 8 word list" where
  "bytes_of_def d = bytes_of_u32 (md_type d) @ bytes_of_u32 (md_key_size d)
                    @ bytes_of_u32 (md_value_size d) @ bytes_of_u32 (md_max_entries d)
                    @ bytes_of_u32 (md_map_flags d)"

definition def_of_bytes :: "8 word list \<Rightarrow> bpf_map_def" where
  "def_of_bytes bs = \<lparr> md_type = le_word (take 4 bs),
                        md_key_size = le_word (take 4 (drop 4 bs)),
                        md_value_size = le_word (take 4 (drop 8 bs)),
                        md_max_entries = le_word (take 4 (drop 12 bs)),
                        md_map_flags = le_word (take 4 (drop 16 bs)) \<rparr>"

text \<open>\<open>memcpy(&def, src, n)\<close>: the first \<open>n\<close> bytes of the record are replaced.\<close>

definition memcpy_def :: "bpf_map_def \<Rightarrow> 8 word list \<Rightarrow> nat \<Rightarrow> bpf_map_def" where
  "memcpy_def d src n = def_of_bytes (take n src @ drop n (bytes_of_def d))"

text \<open>
  \<open>compare_bpf_map\<close> (libbpf.c:565): the difference of two \<open>size_t\<close>, returned as
  \<open>int\<close>.
\<close>

definition compare_bpf_map :: "bpf_map \<Rightarrow> bpf_map \<Rightarrow> int" where
  "compare_bpf_map a b = int_of_size_t (nat ((int (m_offset a) - int (m_offset b)) mod 2 ^ 64))"

text \<open>
  \<open>qsort\<close> belongs to the C library, which does not say how it sorts. It is taken to
  insert the elements one by one; when the comparison is a total order on the elements
  every sorting procedure gives the same order of keys.
\<close>

fun qsort_insert :: "('a \<Rightarrow> 'a \<Rightarrow> int) \<Rightarrow> 'a \<Rightarrow> 'a list \<Rightarrow> 'a list" where
  "qsort_insert cmp x [] = [x]"
| "qsort_insert cmp x (y # ys) =
     (if cmp x y \<le> 0 then x # y # ys else y # qsort_insert cmp x ys)"

definition qsort :: "('a \<Rightarrow> 'a \<Rightarrow> int) \<Rightarrow> 'a list \<Rightarrow> 'a list" where
  "qsort cmp xs = foldr (qsort_insert cmp) xs []"

text \<open>
  The symbols the loops of \<open>bpf_object__init_maps\<close> visit: the answers of
  \<open>gelf_getsym\<close> for the indices below \<open>d_size / sizeof(GElf_Sym)\<close>. A symbol that could
  not be read, or of another section, is passed over.
\<close>

definition sym_entries :: "Elf_Data \<Rightarrow> GElf_Sym option list" where
  "sym_entries symbols = map (gelf_getsym symbols) [0 ..< d_size symbols div sizeof_GElf_Sym]"

definition is_map_sym :: "int \<Rightarrow> GElf_Sym option \<Rightarrow> bool" where
  "is_map_sym maps_shndx s =
     (case s of None \<Rightarrow> False | Some symb \<Rightarrow> int (st_shndx symb) = maps_shndx)"

text \<open>
  The scan of the bytes behind the native record (libbpf.c:690), by index into the
  section's buffer: \<open>Some True\<close> when all are zero, \<open>Some False\<close> at the first
  non-zero byte, \<open>None\<close> when the scan leaves the buffer.
\<close>

fun scan_tail :: "8 word list \<Rightarrow> nat list \<Rightarrow> bool option" where
  "scan_tail buf [] = Some True"
| "scan_tail buf (i # rest) =
     (if length buf \<le> i then None
      else if buf ! i \<noteq> 0 then Some False
      else scan_tail buf rest)"

definition zero_map :: bpf_map where
  "zero_map = \<lparr> m_fd = 0, m_name = None, m_offset = 0, m_map_ifindex = 0,
                 m_def = zero_map_def, m_btf_key_type_id = 0, m_btf_value_type_id = 0 \<rparr>"

text \<open>
  One round of the filling loop (libbpf.c:656 to 703) for a symbol of the maps section;
  \<open>map_def_sz\<close> is the \<open>int\<close> of the source, converted to \<open>size_t\<close> where the
  source compares or adds it to one. A result 0 lets the loop go on.
\<close>

definition init_maps_entry ::
  "world \<Rightarrow> event list \<Rightarrow> Elf \<Rightarrow> bpf_object \<Rightarrow> Elf_Data \<Rightarrow> int \<Rightarrow> nat \<Rightarrow> GElf_Sym
     \<Rightarrow> (int \<times> bpf_object \<times> event list) option" where
  "init_maps_entry w tr elf obj data map_def_sz map_idx symb =
    (let map_name = elf_strptr elf (o_strtabidx obj) (st_name symb);
         maps = o_maps obj
     in if length maps \<le> map_idx then None
        else
          let mp1 = (maps ! map_idx) \<lparr> m_offset := st_value symb \<rparr>
          in if (st_value symb + size_t_of_int map_def_sz) mod 2 ^ 64 > d_size data
               then Some (- EINVAL, obj \<lparr> o_maps := maps [map_idx := mp1] \<rparr>, tr)
             else
               (case map_name of
                  None \<Rightarrow> None
                | Some nm \<Rightarrow>
                    if \<not> w_alloc w tr
                      then Some (- ENOMEM, obj \<lparr> o_maps := maps [map_idx := mp1] \<rparr>, tr @ [Alloc])
                    else
                      let mp2 = mp1 \<lparr> m_name := Some nm \<rparr>;
                          tr1 = tr @ [Alloc];
                          ofs = st_value symb
                      in if size_t_of_int map_def_sz \<le> sizeof_bpf_map_def then
                           (if length (d_buf data) < ofs + size_t_of_int map_def_sz then None
                            else Some (0,
                                   obj \<lparr> o_maps := maps [map_idx :=
                                           mp2 \<lparr> m_def := memcpy_def (m_def mp2)
                                                              (drop ofs (d_buf data))
                                                              (size_t_of_int map_def_sz) \<rparr>] \<rparr>,
                                   tr1))
                         else
                           (case scan_tail (d_buf data)
                                   [ofs + sizeof_bpf_map_def ..< nat (int ofs + map_def_sz)] of
                              None \<Rightarrow> None
                            | Some False \<Rightarrow>
                                Some (- EINVAL, obj \<lparr> o_maps := maps [map_idx := mp2] \<rparr>, tr1)
                            | Some True \<Rightarrow>
                                if length (d_buf data) < ofs + sizeof_bpf_map_def then None
                                else Some (0,
                                       obj \<lparr> o_maps := maps [map_idx :=
                                               mp2 \<lparr> m_def := memcpy_def (m_def mp2)
                                                                  (drop ofs (d_buf data))
                                                                  sizeof_bpf_map_def \<rparr>] \<rparr>,
                                       tr1))))"

text \<open>The filling loop (libbpf.c:646) over the symbols still to visit.\<close>

fun init_maps_fill ::
  "world \<Rightarrow> event list \<Rightarrow> Elf \<Rightarrow> bpf_object \<Rightarrow> Elf_Data \<Rightarrow> int \<Rightarrow> nat \<Rightarrow> GElf_Sym option list
     \<Rightarrow> (int \<times> bpf_object \<times> event list) option" where
  "init_maps_fill w tr elf obj data map_def_sz map_idx [] = Some (0, obj, tr)"
| "init_maps_fill w tr elf obj data map_def_sz map_idx (s # rest) =
    (case s of
       None \<Rightarrow> init_maps_fill w tr elf obj data map_def_sz map_idx rest
     | Some symb \<Rightarrow>
         if int (st_shndx symb) \<noteq> o_maps_shndx obj
           then init_maps_fill w tr elf obj data map_def_sz map_idx rest
         else
           (case init_maps_entry w tr elf obj data map_def_sz map_idx symb of
              None \<Rightarrow> None
            | Some (err, obj1, tr1) \<Rightarrow>
                if err \<noteq> 0 then Some (err, obj1, tr1)
                else init_maps_fill w tr1 elf obj1 data map_def_sz (Suc map_idx) rest))"

text \<open>
  \<open>bpf_object__init_maps\<close> (libbpf.c:573). It is called once, on an object whose map
  table is still empty. The counter \<open>nr_maps\<close> is an \<open>int\<close>: counting past its range is
  undefined. Without ELF handle \<open>elf_getscn\<close> yields NULL.
\<close>

definition bpf_object__init_maps ::
  "world \<Rightarrow> event list \<Rightarrow> bpf_object \<Rightarrow> (int \<times> bpf_object \<times> event list) option" where
  "bpf_object__init_maps w tr obj =
    (if o_maps_shndx obj < 0 then Some (- EINVAL, obj, tr)
     else
       (case o_symbols obj of
          None \<Rightarrow> Some (- EINVAL, obj, tr)
        | Some symbols \<Rightarrow>
            (case Option.bind (Option.bind (o_elf obj) (\<lambda>elf. elf_getscn elf (o_maps_shndx obj)))
                    scn_data of
               None \<Rightarrow> Some (- EINVAL, obj, tr)
             | Some data \<Rightarrow>
                 let count = length (filter (is_map_sym (o_maps_shndx obj)) (sym_entries symbols))
                 in if 2 ^ 31 \<le> count then None
                    else if count = 0 then Some (0, obj, tr)
                    else
                      let map_def_sz = int_of_size_t (d_size data div count)
                      in if d_size data = 0 \<or> d_size data mod count \<noteq> 0
                           then Some (- EINVAL, obj, tr)
                         else if \<not> w_alloc w tr then Some (- ENOMEM, obj, tr @ [Alloc])
                         else
                           let obj1 = obj \<lparr> o_maps := replicate count (zero_map \<lparr> m_fd := - 1 \<rparr>) \<rparr>
                           in case init_maps_fill w (tr @ [Alloc]) (the (o_elf obj)) obj1 data
                                     map_def_sz 0 (sym_entries symbols) of
                                None \<Rightarrow> None
                              | Some (err, obj2, tr2) \<Rightarrow>
                                  if err \<noteq> 0 then Some (err, obj2, tr2)
                                  else Some (0,
                                         obj2 \<lparr> o_maps := qsort compare_bpf_map (o_maps obj2) \<rparr>,
                                         tr2))))"

text \<open>The values of the symbols of the maps section, in the order of the symbol table.\<close>

definition map_sym_values :: "int \<Rightarrow> GElf_Sym option list \<Rightarrow> nat list" where
  "map_sym_values maps_shndx es = map (\<lambda>s. st_value (the s)) (filter (is_map_sym maps_shndx) es)"

section \<open>Opening an object: the sections\<close>

text \<open>
  C strings and the 64 bytes of the license field. A \<open>char\<close> array is read as a string
  up to its first zero byte.
\<close>

definition c_string :: "8 word list \<Rightarrow> string" where
  "c_string bs = map (\<lambda>b. char_of (unat b)) (takeWhile (\<lambda>b. b \<noteq> 0) bs)"

definition license_buffer :: "string \<Rightarrow> 8 word list" where
  "license_buffer s = take 64 (map (\<lambda>c. of_nat (of_char c)) s @ replicate 64 0)"

text \<open>\<open>bpf_object__init_license\<close> (libbpf.c:538); \<open>None\<close> when the data is shorter than its size.\<close>

definition bpf_object__init_license ::
  "bpf_object \<Rightarrow> 8 word list \<Rightarrow> nat \<Rightarrow> (int \<times> bpf_object) option" where
  "bpf_object__init_license obj data sz =
    (let n = min sz 63
     in if length data < n then None
        else Some (0, obj \<lparr> o_license := c_string (take n data
                                   @ drop n (license_buffer (o_license obj))) \<rparr>))"

text \<open>\<open>bpf_object__init_kversion\<close> (libbpf.c:548).\<close>

definition bpf_object__init_kversion ::
  "bpf_object \<Rightarrow> 8 word list \<Rightarrow> nat \<Rightarrow> (int \<times> bpf_object) option" where
  "bpf_object__init_kversion obj data sz =
    (if sz \<noteq> 4 then Some (- LIBBPF_ERRNO__FORMAT, obj)
     else if length data < 4 then None
     else Some (0, obj \<lparr> o_kern_version := le_word (take 4 data) \<rparr>))"

text \<open>
  An instruction in memory (linux/bpf.h): the opcode, one byte with the destination
  register in its low and the source register in its high half, the offset and the
  immediate, least significant byte first.
\<close>

definition insn_of_bytes :: "8 word list \<Rightarrow> bpf_insn" where
  "insn_of_bytes bs = \<lparr> code = bs ! 0,
                         dst_reg = ucast (bs ! 1),
                         src_reg = ucast (drop_bit 4 (bs ! 1)),
                         off = ucast (le_word (take 2 (drop 2 bs))),
                         imm = le_word (take 4 (drop 4 bs)) \<rparr>"

fun insns_of_bytes :: "nat \<Rightarrow> 8 word list \<Rightarrow> bpf_insn list" where
  "insns_of_bytes 0 bs = []"
| "insns_of_bytes (Suc n) bs = insn_of_bytes (take 8 bs) # insns_of_bytes n (drop 8 bs)"

text \<open>
  \<open>bpf_program__init\<close> (libbpf.c:275): the returned \<open>int\<close>, the program it filled in
  and the events. On the error paths the program has been released again by
  \<open>bpf_program__exit\<close> and is not used by the caller.
\<close>

definition empty_program :: bpf_program where
  "empty_program = \<lparr> p_idx = 0, p_name = None, p_prog_ifindex = 0, p_section_name = None,
                      p_insns = None, p_insns_cnt = 0, p_main_prog_cnt = 0,
                      p_type = BPF_PROG_TYPE_UNSPEC, p_reloc_desc = None, p_nr_reloc = 0,
                      p_instances_nr = 0, p_instances_fds = None, p_preprocessor = None,
                      p_expected_attach_type = 0 \<rparr>"

definition bpf_program__init ::
  "world \<Rightarrow> event list \<Rightarrow> 8 word list \<Rightarrow> nat \<Rightarrow> string \<Rightarrow> int
     \<Rightarrow> (int \<times> bpf_program \<times> event list) option" where
  "bpf_program__init w tr data sz section_name idx =
    (if sz < sizeof_bpf_insn then Some (- EINVAL, empty_program, tr)
     else if \<not> w_alloc w tr then Some (- ENOMEM, empty_program, tr @ [Alloc])
     else if \<not> w_alloc w (tr @ [Alloc]) then Some (- ENOMEM, empty_program, tr @ [Alloc, Alloc])
     else
       let cnt = sz div sizeof_bpf_insn
       in if length data < cnt * sizeof_bpf_insn then None
          else Some (0,
                 empty_program \<lparr> p_section_name := Some section_name,
                                 p_insns := Some (insns_of_bytes cnt data),
                                 p_insns_cnt := cnt,
                                 p_idx := idx,
                                 p_instances_fds := None,
                                 p_instances_nr := - 1,
                                 p_type := BPF_PROG_TYPE_KPROBE \<rparr>,
                 tr @ [Alloc, Alloc]))"

text \<open>\<open>bpf_object__add_program\<close> (libbpf.c:313).\<close>

definition bpf_object__add_program ::
  "world \<Rightarrow> event list \<Rightarrow> bpf_object \<Rightarrow> 8 word list \<Rightarrow> nat \<Rightarrow> string \<Rightarrow> int
     \<Rightarrow> (int \<times> bpf_object \<times> event list) option" where
  "bpf_object__add_program w tr obj data sz section_name idx =
    (case bpf_program__init w tr data sz section_name idx of
       None \<Rightarrow> None
     | Some (err, prog, tr1) \<Rightarrow>
         if err \<noteq> 0 then Some (err, obj, tr1)
         else if \<not> w_alloc w tr1 then Some (- ENOMEM, obj, tr1 @ [Alloc])
         else Some (0, obj \<lparr> o_programs := o_programs obj @ [prog] \<rparr>, tr1 @ [Alloc]))"

text \<open>\<open>section_have_execinstr\<close> (libbpf.c:710).\<close>

definition section_have_execinstr :: "bpf_object \<Rightarrow> int \<Rightarrow> bool" where
  "section_have_execinstr obj idx =
    (case Option.bind (o_elf obj) (\<lambda>elf. elf_getscn elf idx) of
       None \<Rightarrow> False
     | Some scn \<Rightarrow>
         (case scn_shdr scn of
            None \<Rightarrow> False
          | Some sh \<Rightarrow> sh_flags sh AND SHF_EXECINSTR \<noteq> 0))"

text \<open>
  \<open>bpf_object__init_prog_names\<close> (libbpf.c:348). The inner loop stops at the first
  global symbol of the program's section; a NULL name from \<open>elf_strptr\<close> ends the
  function.
\<close>

definition find_prog_sym :: "int \<Rightarrow> GElf_Sym option list \<Rightarrow> GElf_Sym option" where
  "find_prog_sym idx es =
     Option.bind
       (find (\<lambda>s. case s of None \<Rightarrow> False
                   | Some symb \<Rightarrow> int (st_shndx symb) = idx
                                   \<and> GELF_ST_BIND (st_info symb) = STB_GLOBAL) es)
       id"

fun init_prog_names_loop ::
  "world \<Rightarrow> event list \<Rightarrow> bpf_object \<Rightarrow> Elf_Data \<Rightarrow> bpf_program list \<Rightarrow> bpf_program list
     \<Rightarrow> (int \<times> bpf_object \<times> event list) option" where
  "init_prog_names_loop w tr obj symbols named [] =
     Some (0, obj \<lparr> o_programs := named \<rparr>, tr)"
| "init_prog_names_loop w tr obj symbols named (prog # rest) =
    (let found = find_prog_sym (p_idx prog) (sym_entries symbols);
         looked_up = (case found of
                        None \<Rightarrow> Some None
                      | Some symb \<Rightarrow>
                          (case Option.bind (o_elf obj)
                                  (\<lambda>elf. elf_strptr elf (o_strtabidx obj) (st_name symb)) of
                             None \<Rightarrow> None
                           | Some nm \<Rightarrow> Some (Some nm)))
     in case looked_up of
          None \<Rightarrow> Some (- LIBBPF_ERRNO__LIBELF, obj \<lparr> o_programs := named @ prog # rest \<rparr>, tr)
        | Some name0 \<Rightarrow>
            let name1 = (if name0 = None \<and> p_idx prog = o_text_shndx obj
                         then Some ''.text'' else name0)
            in (case name1 of
                  None \<Rightarrow> Some (- EINVAL, obj \<lparr> o_programs := named @ prog # rest \<rparr>, tr)
                | Some nm \<Rightarrow>
                    if \<not> w_alloc w tr
                      then Some (- ENOMEM, obj \<lparr> o_programs := named @ prog # rest \<rparr>,
                                 tr @ [Alloc])
                    else init_prog_names_loop w (tr @ [Alloc]) obj symbols
                           (named @ [prog \<lparr> p_name := Some nm \<rparr>]) rest))"

definition bpf_object__init_prog_names ::
  "world \<Rightarrow> event list \<Rightarrow> bpf_object \<Rightarrow> (int \<times> bpf_object \<times> event list) option" where
  "bpf_object__init_prog_names w tr obj =
    (if o_programs obj = [] then Some (0, obj, tr)
     else
       (case o_symbols obj of
          None \<Rightarrow> None
        | Some symbols \<Rightarrow> init_prog_names_loop w tr obj symbols [] (o_programs obj)))"

text \<open>
  World of the parser: \<open>open\<close> of the path, the handle \<open>elf_begin\<close> or
  \<open>elf_memory\<close> delivers, whether \<open>elf_version\<close> accepts the library, and what
  \<open>btf__new\<close> makes of a type metadata section (\<open>None\<close> for an error pointer).
\<close>

record parse_world =
  pw_open :: "event list \<Rightarrow> string \<Rightarrow> int"
  pw_elf :: "event list \<Rightarrow> Elf option"
  pw_elf_version :: bool
  pw_btf_new :: "event list \<Rightarrow> 8 word list \<Rightarrow> btf option"

definition BTF_ELF_SEC :: string where "BTF_ELF_SEC = ''.BTF''"

text \<open>
  One round of the loop of \<open>bpf_object__elf_collect\<close> (libbpf.c:742) for section
  \<open>idx\<close>. The member \<open>e_shstrndx\<close> is used for the section names, which the section
  record already carries.
\<close>

definition elf_collect_section ::
  "world \<Rightarrow> parse_world \<Rightarrow> event list \<Rightarrow> bpf_object \<Rightarrow> int \<Rightarrow> Elf_Scn
     \<Rightarrow> (int \<times> bpf_object \<times> event list) option" where
  "elf_collect_section w pw tr obj idx scn =
    (case scn_shdr scn of
       None \<Rightarrow> Some (- LIBBPF_ERRNO__FORMAT, obj, tr)
     | Some sh \<Rightarrow>
         (case scn_name scn of
            None \<Rightarrow> Some (- LIBBPF_ERRNO__FORMAT, obj, tr)
          | Some name \<Rightarrow>
              (case scn_data scn of
                 None \<Rightarrow> Some (- LIBBPF_ERRNO__FORMAT, obj, tr)
               | Some data \<Rightarrow>
                   if name = ''license'' then
                     map_option (\<lambda>(err, obj1). (err, obj1, tr))
                       (bpf_object__init_license obj (d_buf data) (d_size data))
                   else if name = ''version'' then
                     map_option (\<lambda>(err, obj1). (err, obj1, tr))
                       (bpf_object__init_kversion obj (d_buf data) (d_size data))
                   else if name = ''maps'' then Some (0, obj \<lparr> o_maps_shndx := idx \<rparr>, tr)
                   else if name = BTF_ELF_SEC then
                     Some (0, obj \<lparr> o_btf := pw_btf_new pw tr (d_buf data) \<rparr>, tr @ [BtfNew])
                   else if sh_type sh = SHT_SYMTAB then
                     (if o_symbols obj \<noteq> None then Some (- LIBBPF_ERRNO__FORMAT, obj, tr)
                      else Some (0, obj \<lparr> o_symbols := Some data, o_strtabidx := sh_link sh \<rparr>, tr))
                   else if sh_type sh = SHT_PROGBITS \<and> sh_flags sh AND SHF_EXECINSTR \<noteq> 0
                           \<and> d_size data > 0 then
                     bpf_object__add_program w tr
                       (if name = ''.text'' then obj \<lparr> o_text_shndx := idx \<rparr> else obj)
                       (d_buf data) (d_size data) name idx
                   else if sh_type sh = SHT_REL then
                     (if \<not> section_have_execinstr obj (int_of_size_t (sh_info sh))
                        then Some (0, obj, tr)
                      else if \<not> w_alloc w tr then Some (- ENOMEM, obj, tr @ [Alloc])
                      else Some (0, obj \<lparr> o_reloc := o_reloc obj @ [(sh, data)] \<rparr>, tr @ [Alloc]))
                   else Some (0, obj, tr))))"

text \<open>
  The loop over the sections that \<open>elf_nextscn\<close> delivers, with \<open>idx\<close> the number of
  sections seen before: the result is the error code, the object, the events and the
  final value of \<open>idx\<close>.
\<close>

fun elf_collect_loop ::
  "world \<Rightarrow> parse_world \<Rightarrow> event list \<Rightarrow> bpf_object \<Rightarrow> int \<Rightarrow> Elf_Scn list
     \<Rightarrow> (int \<times> bpf_object \<times> event list \<times> int) option" where
  "elf_collect_loop w pw tr obj idx [] = Some (0, obj, tr, idx)"
| "elf_collect_loop w pw tr obj idx (scn # rest) =
    (case elf_collect_section w pw tr obj (idx + 1) scn of
       None \<Rightarrow> None
     | Some (err, obj1, tr1) \<Rightarrow>
         if err \<noteq> 0 then Some (err, obj1, tr1, idx + 1)
         else elf_collect_loop w pw tr1 obj1 (idx + 1) rest)"

text \<open>
  \<open>bpf_object__elf_collect\<close> (libbpf.c:728). After the loop the index of the string
  table is compared with the number of sections seen; the statement at line 851
  returns \<open>LIBBPF_ERRNO__FORMAT\<close> as it stands there, without a sign.
\<close>

definition bpf_object__elf_collect ::
  "world \<Rightarrow> parse_world \<Rightarrow> event list \<Rightarrow> bpf_object
     \<Rightarrow> (int \<times> bpf_object \<times> event list) option" where
  "bpf_object__elf_collect w pw tr obj =
    (case o_elf obj of
       None \<Rightarrow> Some (- LIBBPF_ERRNO__FORMAT, obj, tr)
     | Some elf \<Rightarrow>
         if \<not> elf_shstr_rawdata elf then Some (- LIBBPF_ERRNO__FORMAT, obj, tr)
         else
           (case elf_collect_loop w pw tr obj 0 (elf_scns elf) of
              None \<Rightarrow> None
            | Some (err, obj1, tr1, idx) \<Rightarrow>
                if err \<noteq> 0 then Some (err, obj1, tr1)
                else if o_strtabidx obj1 = 0 \<or> int (o_strtabidx obj1) \<ge> idx
                  then Some (LIBBPF_ERRNO__FORMAT, obj1, tr1)
                else
                  (case (if o_maps_shndx obj1 \<ge> 0 then bpf_object__init_maps w tr1 obj1
                         else Some (0, obj1, tr1)) of
                     None \<Rightarrow> None
                   | Some (err2, obj2, tr2) \<Rightarrow>
                       if err2 \<noteq> 0 then Some (err2, obj2, tr2)
                       else bpf_object__init_prog_names w tr2 obj2)))"

section \<open>Opening an object: relocation records\<close>

text \<open>Opcodes of linux/bpf.h: \<open>BPF_JMP | BPF_CALL\<close> and \<open>BPF_LD | BPF_IMM | BPF_DW\<close>.\<close>

definition BPF_JMP_CALL :: "8 word" where "BPF_JMP_CALL = 0x85"
definition BPF_LD_IMM_DW :: "8 word" where "BPF_LD_IMM_DW = 0x18"

text \<open>The search for the map of a byte offset (libbpf.c:950): the first index, if any.\<close>

fun find_map_idx :: "bpf_map list \<Rightarrow> nat \<Rightarrow> nat \<Rightarrow> nat option" where
  "find_map_idx [] ofs i = None"
| "find_map_idx (mp # mps) ofs i =
     (if m_offset mp = ofs then Some i else find_map_idx mps ofs (Suc i))"

text \<open>
  The loop of \<open>bpf_program__collect_reloc\<close> (libbpf.c:899) from record \<open>i\<close>, with the
  records written so far. The instruction index is an \<open>unsigned int\<close>; the record
  keeps it and the symbol's value as \<open>int\<close>.
\<close>

function collect_reloc_loop ::
  "bpf_object \<Rightarrow> bpf_program \<Rightarrow> Elf_Data \<Rightarrow> nat \<Rightarrow> nat \<Rightarrow> reloc_desc list \<Rightarrow> bool
     \<Rightarrow> (int \<times> reloc_desc list \<times> bool) option" where
  "collect_reloc_loop obj prog data nrels i descs calls =
    (if i < nrels then
       (case gelf_getrel data i of
          None \<Rightarrow> Some (- LIBBPF_ERRNO__FORMAT, descs, calls)
        | Some rel \<Rightarrow>
            (case Option.bind (o_symbols obj) (\<lambda>symbols. gelf_getsym symbols (GELF_R_SYM (r_info rel))) of
               None \<Rightarrow> Some (- LIBBPF_ERRNO__FORMAT, descs, calls)
             | Some symb \<Rightarrow>
                 if int (st_shndx symb) \<noteq> o_maps_shndx obj \<and> int (st_shndx symb) \<noteq> o_text_shndx obj
                   then Some (- LIBBPF_ERRNO__RELOC, descs, calls)
                 else
                   let insn_idx = (r_offset rel div sizeof_bpf_insn) mod 2 ^ 32;
                       insns = buffer (p_insns prog)
                   in if length insns \<le> insn_idx then None
                      else if code (insns ! insn_idx) = BPF_JMP_CALL then
                        (if src_reg (insns ! insn_idx) \<noteq> BPF_PSEUDO_CALL
                           then Some (- LIBBPF_ERRNO__RELOC, descs, calls)
                         else collect_reloc_loop obj prog data nrels (Suc i)
                                (descs @ [\<lparr> r_type = RELO_CALL,
                                            r_insn_idx = int_of_size_t insn_idx,
                                            r_map_idx_text_off = int_of_size_t (st_value symb) \<rparr>])
                                True)
                      else if code (insns ! insn_idx) \<noteq> BPF_LD_IMM_DW
                        then Some (- LIBBPF_ERRNO__RELOC, descs, calls)
                      else
                        (case find_map_idx (o_maps obj) (st_value symb) 0 of
                           None \<Rightarrow> Some (- LIBBPF_ERRNO__RELOC, descs, calls)
                         | Some map_idx \<Rightarrow>
                             collect_reloc_loop obj prog data nrels (Suc i)
                               (descs @ [\<lparr> r_type = RELO_LD64,
                                           r_insn_idx = int_of_size_t insn_idx,
                                           r_map_idx_text_off = int_of_size_t map_idx \<rparr>])
                               calls)))
     else Some (0, descs, calls))"
  by pat_completeness auto
termination
  by (relation "measure (\<lambda>(obj, prog, data, nrels, i, descs, calls). nrels - i)") auto

declare collect_reloc_loop.simps [simp del]

text \<open>
  \<open>bpf_program__collect_reloc\<close> (libbpf.c:877) for program number \<open>k\<close> of the object.
  A zero \<open>sh_entsize\<close> is a division by zero. When the loop stops early the records
  not yet written are indeterminate: the model keeps the written ones only.
\<close>

definition bpf_program__collect_reloc ::
  "world \<Rightarrow> event list \<Rightarrow> nat \<Rightarrow> GElf_Shdr \<Rightarrow> Elf_Data \<Rightarrow> bpf_object
     \<Rightarrow> (int \<times> bpf_object \<times> event list) option" where
  "bpf_program__collect_reloc w tr k shdr data obj =
    (if sh_entsize shdr = 0 then None
     else
       let prog = o_programs obj ! k;
           nrels = nat (int_of_size_t (sh_size shdr div sh_entsize shdr))
       in if \<not> w_alloc w tr
            then Some (- ENOMEM,
                       obj \<lparr> o_programs := (o_programs obj) [k := prog \<lparr> p_reloc_desc := None \<rparr>] \<rparr>,
                       tr @ [Alloc])
          else
            (case collect_reloc_loop obj prog data nrels 0 [] (o_has_pseudo_calls obj) of
               None \<Rightarrow> None
             | Some (err, descs, calls) \<Rightarrow>
                 Some (err,
                       obj \<lparr> o_programs := (o_programs obj)
                                [k := prog \<lparr> p_reloc_desc := Some descs,
                                            p_nr_reloc := int_of_size_t (sh_size shdr div sh_entsize shdr) \<rparr>],
                             o_has_pseudo_calls := calls \<rparr>,
                       tr @ [Alloc])))"

text \<open>The index of the first program of a section, as \<open>bpf_object__find_prog_by_idx\<close> finds it.\<close>

fun find_prog_pos :: "bpf_program list \<Rightarrow> int \<Rightarrow> nat \<Rightarrow> nat option" where
  "find_prog_pos [] idx k = None"
| "find_prog_pos (prog # progs) idx k =
     (if p_idx prog = idx then Some k else find_prog_pos progs idx (Suc k))"

text \<open>\<open>bpf_object__collect_reloc\<close> (libbpf.c:1254), the loop over the collected sections.\<close>

fun collect_reloc_sections ::
  "world \<Rightarrow> event list \<Rightarrow> bpf_object \<Rightarrow> (GElf_Shdr \<times> Elf_Data) list
     \<Rightarrow> (int \<times> bpf_object \<times> event list) option" where
  "collect_reloc_sections w tr obj [] = Some (0, obj, tr)"
| "collect_reloc_sections w tr obj ((shdr, data) # rest) =
    (if sh_type shdr \<noteq> SHT_REL then Some (- LIBBPF_ERRNO__INTERNAL, obj, tr)
     else
       (case find_prog_pos (o_programs obj) (int_of_size_t (sh_info shdr)) 0 of
          None \<Rightarrow> Some (- LIBBPF_ERRNO__RELOC, obj, tr)
        | Some k \<Rightarrow>
            (case bpf_program__collect_reloc w tr k shdr data obj of
               None \<Rightarrow> None
             | Some (err, obj1, tr1) \<Rightarrow>
                 if err \<noteq> 0 then Some (err, obj1, tr1)
                 else collect_reloc_sections w tr1 obj1 rest)))"

definition bpf_object__collect_reloc ::
  "world \<Rightarrow> event list \<Rightarrow> bpf_object \<Rightarrow> (int \<times> bpf_object \<times> event list) option" where
  "bpf_object__collect_reloc w tr obj =
    (if o_elf obj = None then Some (- LIBBPF_ERRNO__INTERNAL, obj, tr)
     else collect_reloc_sections w tr obj (o_reloc obj))"

section \<open>Reusing a descriptor for a map\<close>

text \<open>
  \<open>bpf_map__reuse_fd\<close> (libbpf.c:1043). The result is the returned \<open>int\<close>, the map
  afterwards and the extended events. On the error paths the function returns
  \<open>-errno\<close>, whatever \<open>errno\<close> holds then. After a failed \<open>dup3\<close> the variable
  \<open>new_fd\<close> holds the negative return value, and that is what is closed.
\<close>

definition bpf_map__reuse_fd ::
  "world \<Rightarrow> event list \<Rightarrow> bpf_map \<Rightarrow> int \<Rightarrow> int \<times> bpf_map \<times> event list" where
  "bpf_map__reuse_fd w tr mp fd =
    (let (err, info) = w_get_info w tr fd;
         tr1 = tr @ [GetInfo fd]
     in if err \<noteq> 0 then (err, mp, tr1)
        else
          let new_name = (if w_alloc w tr1 then Some (mi_name info) else None);
              tr2 = tr1 @ [Alloc]
          in if new_name = None then (- w_errno w tr2, mp, tr2)
             else
               let new_fd = w_open_root w tr2;
                   tr3 = tr2 @ [OpenRoot]
               in if new_fd < 0 then (- w_errno w tr3, mp, tr3)
                  else
                    let new_fd' = w_dup3 w tr3 fd new_fd;
                        tr4 = tr3 @ [Dup3 fd new_fd]
                    in if new_fd' < 0
                       then (- w_errno w (tr4 @ [Close new_fd']), mp, tr4 @ [Close new_fd'])
                       else
                         let (err', tr5) = zclose w tr4 (m_fd mp);
                             map1 = mp \<lparr> m_fd := - 1 \<rparr>
                         in if err' \<noteq> 0
                            then (- w_errno w (tr5 @ [Close new_fd']), map1,
                                  tr5 @ [Close new_fd'])
                            else (0,
                                  map1 \<lparr> m_fd := new_fd',
                                         m_name := new_name,
                                         m_def := (m_def map1)
                                           \<lparr> md_type := mi_type info,
                                             md_key_size := mi_key_size info,
                                             md_value_size := mi_value_size info,
                                             md_max_entries := mi_max_entries info,
                                             md_map_flags := mi_map_flags info \<rparr>,
                                         m_btf_key_type_id := mi_btf_key_type_id info,
                                         m_btf_value_type_id := mi_btf_value_type_id info \<rparr>,
                                  tr5))"

section \<open>Relocation\<close>

text \<open>\<open>bpf_object__find_prog_by_idx\<close> (libbpf.c:863): the first program of that section.\<close>

definition bpf_object__find_prog_by_idx :: "bpf_object \<Rightarrow> int \<Rightarrow> bpf_program option" where
  "bpf_object__find_prog_by_idx obj idx = find (\<lambda>prog. p_idx prog = idx) (o_programs obj)"

text \<open>
  In the functions below the result \<open>None\<close> stands for an access outside a buffer,
  which C leaves undefined; otherwise the result is the returned \<open>int\<close> with the
  state afterwards.

  \<open>bpf_program__reloc_text\<close> (libbpf.c:1154). \<open>reallocarray\<close> keeps the old
  instructions, \<open>memcpy\<close> puts the text program's behind them. The immediate is a
  32-bit field: the sum is taken modulo \<open>2 ^ 32\<close>.
\<close>

definition bpf_program__reloc_text ::
  "world \<Rightarrow> event list \<Rightarrow> bpf_program \<Rightarrow> bpf_object \<Rightarrow> reloc_desc
     \<Rightarrow> (int \<times> bpf_program \<times> event list) option" where
  "bpf_program__reloc_text w tr prog obj relo =
    (if r_type relo \<noteq> RELO_CALL then Some (- LIBBPF_ERRNO__RELOC, prog, tr)
     else if p_idx prog = o_text_shndx obj then Some (- LIBBPF_ERRNO__RELOC, prog, tr)
     else
       let grown =
         (if p_main_prog_cnt prog = 0 then
            (case bpf_object__find_prog_by_idx obj (o_text_shndx obj) of
               None \<Rightarrow> Some (- LIBBPF_ERRNO__RELOC, prog, tr)
             | Some text \<Rightarrow>
                 let new_cnt = (p_insns_cnt prog + p_insns_cnt text) mod 2 ^ 64
                 in if \<not> w_alloc w tr then Some (- ENOMEM, prog, tr @ [Alloc])
                    else if length (buffer (p_insns prog)) < p_insns_cnt prog
                            \<or> length (buffer (p_insns text)) < p_insns_cnt text
                            \<or> new_cnt < p_insns_cnt prog + p_insns_cnt text
                      then None
                    else Some (0,
                           prog \<lparr> p_insns := Some (take (p_insns_cnt prog) (buffer (p_insns prog))
                                                    @ take (p_insns_cnt text) (buffer (p_insns text))),
                                  p_main_prog_cnt := p_insns_cnt prog,
                                  p_insns_cnt := new_cnt \<rparr>,
                           tr @ [Alloc]))
          else Some (0, prog, tr))
       in case grown of
            None \<Rightarrow> None
          | Some (err, prog1, tr1) \<Rightarrow>
              if err \<noteq> 0 then Some (err, prog1, tr1)
              else
                let insns = buffer (p_insns prog1); i = r_insn_idx relo
                in if i < 0 \<or> int (length insns) \<le> i then None
                   else Some (0,
                          prog1 \<lparr> p_insns := Some (insns [nat i :=
                                     (insns ! nat i) \<lparr> imm := imm (insns ! nat i)
                                        + word_of_int (int (p_main_prog_cnt prog1) - i) \<rparr>]) \<rparr>,
                          tr1))"

text \<open>
  The loop of \<open>bpf_program__relocate\<close> (libbpf.c:1205) over the relocation records.
\<close>

fun relocate_loop ::
  "world \<Rightarrow> event list \<Rightarrow> bpf_object \<Rightarrow> bpf_program \<Rightarrow> reloc_desc list
     \<Rightarrow> (int \<times> bpf_program \<times> event list) option" where
  "relocate_loop w tr obj prog [] = Some (0, prog, tr)"
| "relocate_loop w tr obj prog (relo # rest) =
    (if r_type relo = RELO_LD64 then
       (let insns = buffer (p_insns prog);
            insn_idx = r_insn_idx relo;
            map_idx = r_map_idx_text_off relo
        in if insn_idx \<ge> int_of_size_t (p_insns_cnt prog)
             then Some (- LIBBPF_ERRNO__RELOC, prog, tr)
           else if insn_idx < 0 \<or> int (length insns) \<le> insn_idx then None
           else if map_idx < 0 \<or> int (length (o_maps obj)) \<le> map_idx then None
           else relocate_loop w tr obj
                  (prog \<lparr> p_insns := Some (insns [nat insn_idx :=
                             (insns ! nat insn_idx)
                               \<lparr> src_reg := BPF_PSEUDO_MAP_FD,
                                 imm := word_of_int (m_fd (o_maps obj ! nat map_idx)) \<rparr>]) \<rparr>)
                  rest)
     else
       (case bpf_program__reloc_text w tr prog obj relo of
          None \<Rightarrow> None
        | Some (err, prog1, tr1) \<Rightarrow>
            if err \<noteq> 0 then Some (err, prog1, tr1)
            else relocate_loop w tr1 obj prog1 rest))"

text \<open>
  \<open>bpf_program__relocate\<close> (libbpf.c:1197). The loop runs over the first \<open>nr_reloc\<close>
  records; fewer records in the buffer than \<open>nr_reloc\<close> is an access outside it.
\<close>

definition bpf_program__relocate ::
  "world \<Rightarrow> event list \<Rightarrow> bpf_program \<Rightarrow> bpf_object
     \<Rightarrow> (int \<times> bpf_program \<times> event list) option" where
  "bpf_program__relocate w tr prog obj =
    (case p_reloc_desc prog of
       None \<Rightarrow> Some (0, prog, tr)
     | Some descs \<Rightarrow>
         if int (length descs) < p_nr_reloc prog then None
         else
           (case relocate_loop w tr obj prog (take (nat (p_nr_reloc prog)) descs) of
              None \<Rightarrow> None
            | Some (err, prog1, tr1) \<Rightarrow>
                if err \<noteq> 0 then Some (err, prog1, tr1)
                else Some (0, prog1 \<lparr> p_reloc_desc := None, p_nr_reloc := 0 \<rparr>, tr1)))"

text \<open>
  \<open>bpf_object__relocate\<close> (libbpf.c:1234): the programs in turn, from index \<open>i\<close>; a
  program is relocated in place.
\<close>

function bpf_object__relocate_from ::
  "world \<Rightarrow> event list \<Rightarrow> bpf_object \<Rightarrow> nat \<Rightarrow> (int \<times> bpf_object \<times> event list) option" where
  "bpf_object__relocate_from w tr obj i =
    (if i < length (o_programs obj) then
       (case bpf_program__relocate w tr (o_programs obj ! i) obj of
          None \<Rightarrow> None
        | Some (err, prog1, tr1) \<Rightarrow>
            let obj1 = obj \<lparr> o_programs := (o_programs obj) [i := prog1] \<rparr>
            in if err \<noteq> 0 then Some (err, obj1, tr1)
               else bpf_object__relocate_from w tr1 obj1 (Suc i))
     else Some (0, obj, tr))"
  by pat_completeness auto
termination
  by (relation "measure (\<lambda>(w, tr, obj, i). length (o_programs obj) - i)") auto

declare bpf_object__relocate_from.simps [simp del]

definition bpf_object__relocate ::
  "world \<Rightarrow> event list \<Rightarrow> bpf_object \<Rightarrow> (int \<times> bpf_object \<times> event list) option" where
  "bpf_object__relocate w tr obj = bpf_object__relocate_from w tr obj 0"

text \<open>
  What one relocation record does to an instruction vector, in the words of the
  specification: a local-call record at instruction \<open>i\<close> adds \<open>main_prog_cnt - i\<close> to
  that instruction's immediate; a map record sets the source register to the map-fd
  sentinel and the immediate to the map's descriptor.
\<close>

definition reloc_patch :: "nat \<Rightarrow> bpf_map list \<Rightarrow> bpf_insn list \<Rightarrow> reloc_desc \<Rightarrow> bpf_insn list" where
  "reloc_patch main_prog_cnt maps insns relo =
     (let i = nat (r_insn_idx relo)
      in if r_type relo = RELO_CALL
         then insns [i := (insns ! i) \<lparr> imm := imm (insns ! i)
                                 + word_of_int (int main_prog_cnt - r_insn_idx relo) \<rparr>]
         else insns [i := (insns ! i) \<lparr> src_reg := BPF_PSEUDO_MAP_FD,
                        imm := word_of_int (m_fd (maps ! nat (r_map_idx_text_off relo))) \<rparr>])"

text \<open>A relocation record whose instruction index and map index are inside the tables.\<close>

definition relo_in_range :: "nat \<Rightarrow> nat \<Rightarrow> reloc_desc \<Rightarrow> bool" where
  "relo_in_range cnt nr_maps relo =
     (0 \<le> r_insn_idx relo \<and> r_insn_idx relo < int cnt
      \<and> (r_type relo = RELO_LD64 \<longrightarrow>
           0 \<le> r_map_idx_text_off relo \<and> r_map_idx_text_off relo < int nr_maps))"

section \<open>Creating maps\<close>

text \<open>
  \<open>BTF_INFO_KIND\<close>, \<open>BTF_INFO_VLEN\<close> and \<open>BTF_KIND_STRUCT\<close> are declared in
  linux/btf.h: the kind is bits 24 to 27 of \<open>info\<close>, the member count its low 16 bits,
  and the kind of a struct is 4.
\<close>

definition BTF_INFO_KIND :: "32 word \<Rightarrow> 32 word" where
  "BTF_INFO_KIND info = (drop_bit 24 info) AND 0x0f"

definition BTF_INFO_VLEN :: "32 word \<Rightarrow> 32 word" where
  "BTF_INFO_VLEN info = info AND 0xffff"

definition BTF_KIND_STRUCT :: "32 word" where "BTF_KIND_STRUCT = 4"

text \<open>
  \<open>bpf_map_find_btf_info\<close> (libbpf.c:971): the returned \<open>int\<close> and the map. The
  container name is written by \<open>snprintf\<close> into 256 bytes, so at most 255 characters
  of it are looked up. \<open>None\<close>: the map has no name, or the struct type has fewer
  than the two members that are read.
\<close>

definition bpf_map_find_btf_info :: "bpf_map \<Rightarrow> btf \<Rightarrow> (int \<times> bpf_map) option" where
  "bpf_map_find_btf_info mp b =
    (case m_name mp of
       None \<Rightarrow> None
     | Some nm \<Rightarrow>
         let max_name = 256;
             full_name = ''____btf_map_'' @ nm
         in if length full_name = max_name then Some (- EINVAL, mp)
            else
              let container_id = btf_find_by_name b (take (max_name - 1) full_name)
              in if container_id < 0 then Some (container_id, mp)
                 else
                   (case btf_type_by_id b container_id of
                      None \<Rightarrow> Some (- EINVAL, mp)
                    | Some container_type \<Rightarrow>
                        if BTF_INFO_KIND (bt_info container_type) \<noteq> BTF_KIND_STRUCT
                           \<or> BTF_INFO_VLEN (bt_info container_type) < 2
                          then Some (- EINVAL, mp)
                        else
                          (case bt_members container_type of
                             key # val # _ \<Rightarrow>
                               let key_size = btf_resolve_size b key
                               in if key_size < 0
                                    then Some (sint (word_of_int key_size :: 32 word), mp)
                                  else if uint (md_key_size (m_def mp)) \<noteq> key_size
                                    then Some (- EINVAL, mp)
                                  else
                                    let value_size = btf_resolve_size b val
                                    in if value_size < 0
                                         then Some (sint (word_of_int value_size :: 32 word), mp)
                                       else if uint (md_value_size (m_def mp)) \<noteq> value_size
                                         then Some (- EINVAL, mp)
                                       else Some (0, mp \<lparr> m_btf_key_type_id := key,
                                                           m_btf_value_type_id := val \<rparr>)
                           | _ \<Rightarrow> None)))"

text \<open>The loop \<open>for (j = 0; j < i; j++) zclose(obj->maps[j].fd)\<close> over a list of maps.\<close>

fun zclose_maps :: "world \<Rightarrow> event list \<Rightarrow> bpf_map list \<Rightarrow> bpf_map list \<times> event list" where
  "zclose_maps w tr [] = ([], tr)"
| "zclose_maps w tr (mp # mps) =
    (let (r, tr1) = zclose w tr (m_fd mp);
         (mps', tr2) = zclose_maps w tr1 mps
     in (mp \<lparr> m_fd := - 1 \<rparr> # mps', tr2))"

text \<open>
  One round of the loop of \<open>bpf_object__create_maps\<close> (libbpf.c:1097) for a map
  without descriptor: the map afterwards, whose descriptor is what the last creation
  call returned.
\<close>

definition create_one_map ::
  "world \<Rightarrow> event list \<Rightarrow> bpf_object \<Rightarrow> bpf_map \<Rightarrow> (bpf_map \<times> event list) option" where
  "create_one_map w tr obj mp =
    (let create_attr = \<lparr> ca_name = m_name mp,
                          ca_map_type = md_type (m_def mp),
                          ca_map_flags = md_map_flags (m_def mp),
                          ca_key_size = md_key_size (m_def mp),
                          ca_value_size = md_value_size (m_def mp),
                          ca_max_entries = md_max_entries (m_def mp),
                          ca_btf_fd = 0, ca_btf_key_type_id = 0, ca_btf_value_type_id = 0,
                          ca_map_ifindex = m_map_ifindex mp \<rparr>;
         found = (case o_btf obj of
                    None \<Rightarrow> Some (False, mp)
                  | Some b \<Rightarrow>
                      (case bpf_map_find_btf_info mp b of
                         None \<Rightarrow> None
                       | Some (r, mp') \<Rightarrow> Some (r = 0, mp')))
     in case found of
          None \<Rightarrow> None
        | Some (with_btf, mp1) \<Rightarrow>
            let create_attr1 =
                  (if with_btf
                   then create_attr \<lparr> ca_btf_fd := btf_fd (the (o_btf obj)),
                                      ca_btf_key_type_id := m_btf_key_type_id mp1,
                                      ca_btf_value_type_id := m_btf_value_type_id mp1 \<rparr>
                   else create_attr);
                fd1 = w_map_create w tr create_attr1;
                tr1 = tr @ [MapCreate create_attr1];
                mp2 = mp1 \<lparr> m_fd := fd1 \<rparr>
            in if fd1 < 0 \<and> ca_btf_key_type_id create_attr1 \<noteq> 0 then
                 (let create_attr2 = create_attr1 \<lparr> ca_btf_fd := 0, ca_btf_key_type_id := 0,
                                                     ca_btf_value_type_id := 0 \<rparr>;
                      mp3 = mp2 \<lparr> m_btf_key_type_id := 0, m_btf_value_type_id := 0 \<rparr>;
                      fd2 = w_map_create w tr1 create_attr2
                  in Some (mp3 \<lparr> m_fd := fd2 \<rparr>, tr1 @ [MapCreate create_attr2]))
               else Some (mp2, tr1))"

text \<open>\<open>bpf_object__create_maps\<close> (libbpf.c:1090), the loop from map \<open>i\<close>.\<close>

function bpf_object__create_maps_from ::
  "world \<Rightarrow> event list \<Rightarrow> bpf_object \<Rightarrow> nat \<Rightarrow> (int \<times> bpf_object \<times> event list) option" where
  "bpf_object__create_maps_from w tr obj i =
    (if i < length (o_maps obj) then
       (let mp = o_maps obj ! i
        in if m_fd mp \<ge> 0 then bpf_object__create_maps_from w tr obj (Suc i)
           else
             (case create_one_map w tr obj mp of
                None \<Rightarrow> None
              | Some (mp1, tr1) \<Rightarrow>
                  let obj1 = obj \<lparr> o_maps := (o_maps obj) [i := mp1] \<rparr>
                  in if m_fd mp1 < 0 then
                       (let (closed, tr2) = zclose_maps w tr1 (take i (o_maps obj1))
                        in Some (m_fd mp1,
                                 obj1 \<lparr> o_maps := closed @ drop i (o_maps obj1) \<rparr>, tr2))
                     else bpf_object__create_maps_from w tr1 obj1 (Suc i)))
     else Some (0, obj, tr))"
  by pat_completeness auto
termination
  by (relation "measure (\<lambda>(w, tr, obj, i). length (o_maps obj) - i)") auto

declare bpf_object__create_maps_from.simps [simp del]

definition bpf_object__create_maps ::
  "world \<Rightarrow> event list \<Rightarrow> bpf_object \<Rightarrow> (int \<times> bpf_object \<times> event list) option" where
  "bpf_object__create_maps w tr obj = bpf_object__create_maps_from w tr obj 0"

section \<open>Loading programs\<close>

text \<open>
  The loop of \<open>bpf_program__load\<close> over the instances of a program with preprocessor
  (libbpf.c:1395), for the instance numbers still to do.
\<close>

fun load_instances ::
  "world \<Rightarrow> event list \<Rightarrow> bpf_program \<Rightarrow> bpf_program_prep_t \<Rightarrow> string \<Rightarrow> 32 word \<Rightarrow> nat list
     \<Rightarrow> (int \<times> bpf_program \<times> event list) option" where
  "load_instances w tr prog preprocessor license kern_version [] = Some (0, prog, tr)"
| "load_instances w tr prog preprocessor license kern_version (i # rest) =
    (let (err, result) = preprocessor (int i) (p_insns prog) (int_of_size_t (p_insns_cnt prog))
     in if err \<noteq> 0 then Some (err, prog, tr)
        else if new_insn_ptr result = None \<or> new_insn_cnt result = 0 then
          (if length (buffer (p_instances_fds prog)) \<le> i then None
           else
             load_instances w (if pfd_set result then tr @ [StorePfd (int i) (- 1)] else tr)
               (prog \<lparr> p_instances_fds := Some ((buffer (p_instances_fds prog)) [i := - 1]) \<rparr>)
               preprocessor license kern_version rest)
        else
          (case load_program w tr (p_type prog) (p_expected_attach_type prog) (p_name prog)
                  (new_insn_ptr result) (new_insn_cnt result) license kern_version
                  (p_prog_ifindex prog) of
             (err1, pfd, tr1) \<Rightarrow>
               if err1 \<noteq> 0 then Some (err1, prog, tr1)
               else
                 (case pfd of
                    None \<Rightarrow> None
                  | Some fd \<Rightarrow>
                      if length (buffer (p_instances_fds prog)) \<le> i then None
                      else
                        load_instances w
                          (if pfd_set result then tr1 @ [StorePfd (int i) fd] else tr1)
                          (prog \<lparr> p_instances_fds :=
                                    Some ((buffer (p_instances_fds prog)) [i := fd]) \<rparr>)
                          preprocessor license kern_version rest)))"

text \<open>
  \<open>bpf_program__load\<close> (libbpf.c:1359). The two early returns leave the instructions
  in place; every other path releases them at \<open>out\<close>.
\<close>

definition bpf_program__load ::
  "world \<Rightarrow> event list \<Rightarrow> bpf_program \<Rightarrow> string \<Rightarrow> 32 word
     \<Rightarrow> (int \<times> bpf_program \<times> event list) option" where
  "bpf_program__load w tr prog license kern_version =
    (let fresh = (p_instances_nr prog < 0 \<or> p_instances_fds prog = None)
     in if fresh \<and> p_preprocessor prog \<noteq> None then Some (- LIBBPF_ERRNO__INTERNAL, prog, tr)
        else if fresh \<and> \<not> w_alloc w tr then Some (- ENOMEM, prog, tr @ [Alloc])
        else
          let prog1 = (if fresh then prog \<lparr> p_instances_nr := 1, p_instances_fds := Some [- 1] \<rparr>
                       else prog);
              tr1 = (if fresh then tr @ [Alloc] else tr);
              loaded =
                (case p_preprocessor prog1 of
                   None \<Rightarrow>
                     (case load_program w tr1 (p_type prog1) (p_expected_attach_type prog1)
                             (p_name prog1) (p_insns prog1) (int_of_size_t (p_insns_cnt prog1))
                             license kern_version (p_prog_ifindex prog1) of
                        (err, pfd, tr2) \<Rightarrow>
                          if err \<noteq> 0 then Some (err, prog1, tr2)
                          else
                            (case pfd of
                               None \<Rightarrow> None
                             | Some fd \<Rightarrow>
                                 if buffer (p_instances_fds prog1) = [] then None
                                 else Some (0, prog1 \<lparr> p_instances_fds :=
                                              Some ((buffer (p_instances_fds prog1)) [0 := fd]) \<rparr>,
                                            tr2)))
                 | Some preprocessor \<Rightarrow>
                     load_instances w tr1 prog1 preprocessor license kern_version
                       [0 ..< nat (p_instances_nr prog1)])
          in case loaded of
               None \<Rightarrow> None
             | Some (err, prog2, tr2) \<Rightarrow>
                 Some (err, prog2 \<lparr> p_insns := None, p_insns_cnt := 0 \<rparr>, tr2))"

text \<open>\<open>bpf_program__is_function_storage\<close> (libbpf.c:1442).\<close>

definition bpf_program__is_function_storage :: "bpf_program \<Rightarrow> bpf_object \<Rightarrow> bool" where
  "bpf_program__is_function_storage prog obj \<longleftrightarrow>
     p_idx prog = o_text_shndx obj \<and> o_has_pseudo_calls obj"

text \<open>\<open>bpf_object__load_progs\<close> (libbpf.c:1448), the loop from program \<open>i\<close>.\<close>

function bpf_object__load_progs_from ::
  "world \<Rightarrow> event list \<Rightarrow> bpf_object \<Rightarrow> nat \<Rightarrow> (int \<times> bpf_object \<times> event list) option" where
  "bpf_object__load_progs_from w tr obj i =
    (if i < length (o_programs obj) then
       (if bpf_program__is_function_storage (o_programs obj ! i) obj
          then bpf_object__load_progs_from w tr obj (Suc i)
        else
          (case bpf_program__load w tr (o_programs obj ! i) (o_license obj) (o_kern_version obj) of
             None \<Rightarrow> None
           | Some (err, prog1, tr1) \<Rightarrow>
               let obj1 = obj \<lparr> o_programs := (o_programs obj) [i := prog1] \<rparr>
               in if err \<noteq> 0 then Some (err, obj1, tr1)
                  else bpf_object__load_progs_from w tr1 obj1 (Suc i)))
     else Some (0, obj, tr))"
  by pat_completeness auto
termination
  by (relation "measure (\<lambda>(w, tr, obj, i). length (o_programs obj) - i)") auto

declare bpf_object__load_progs_from.simps [simp del]

definition bpf_object__load_progs ::
  "world \<Rightarrow> event list \<Rightarrow> bpf_object \<Rightarrow> (int \<times> bpf_object \<times> event list) option" where
  "bpf_object__load_progs w tr obj = bpf_object__load_progs_from w tr obj 0"

section \<open>Unloading and loading an object\<close>

text \<open>The loop \<open>zclose(prog->instances.fds[i])\<close> of \<open>bpf_program__unload\<close>.\<close>

fun zclose_fds :: "world \<Rightarrow> event list \<Rightarrow> int list \<Rightarrow> event list" where
  "zclose_fds w tr [] = tr"
| "zclose_fds w tr (fd # fds) = zclose_fds w (snd (zclose w tr fd)) fds"

text \<open>\<open>bpf_program__unload\<close> (libbpf.c:230).\<close>

definition bpf_program__unload ::
  "world \<Rightarrow> event list \<Rightarrow> bpf_program \<Rightarrow> (bpf_program \<times> event list) option" where
  "bpf_program__unload w tr prog =
    (if p_instances_nr prog > 0 \<and> int (length (buffer (p_instances_fds prog))) < p_instances_nr prog
       then None
     else
       let tr1 = (if p_instances_nr prog > 0
                  then zclose_fds w tr (take (nat (p_instances_nr prog))
                                          (buffer (p_instances_fds prog)))
                  else tr)
       in Some (prog \<lparr> p_instances_nr := - 1, p_instances_fds := None \<rparr>, tr1))"

fun unload_programs ::
  "world \<Rightarrow> event list \<Rightarrow> bpf_program list \<Rightarrow> (bpf_program list \<times> event list) option" where
  "unload_programs w tr [] = Some ([], tr)"
| "unload_programs w tr (prog # progs) =
    (case bpf_program__unload w tr prog of
       None \<Rightarrow> None
     | Some (prog1, tr1) \<Rightarrow>
         (case unload_programs w tr1 progs of
            None \<Rightarrow> None
          | Some (progs1, tr2) \<Rightarrow> Some (prog1 # progs1, tr2)))"

text \<open>\<open>bpf_object__unload\<close> (libbpf.c:1580), for an object that is not NULL.\<close>

definition bpf_object__unload ::
  "world \<Rightarrow> event list \<Rightarrow> bpf_object \<Rightarrow> (int \<times> bpf_object \<times> event list) option" where
  "bpf_object__unload w tr obj =
    (let (maps1, tr1) = zclose_maps w tr (o_maps obj)
     in case unload_programs w tr1 (o_programs obj) of
          None \<Rightarrow> None
        | Some (progs1, tr2) \<Rightarrow> Some (0, obj \<lparr> o_maps := maps1, o_programs := progs1 \<rparr>, tr2))"

text \<open>
  \<open>bpf_object__load\<close> (libbpf.c:1596), for an object that is not NULL. \<open>CHECK_ERR\<close>
  jumps to \<open>out\<close> on a non-zero result, where the object is unloaded.
\<close>

definition load_failed ::
  "world \<Rightarrow> int \<times> bpf_object \<times> event list \<Rightarrow> (int \<times> bpf_object \<times> event list) option" where
  "load_failed w r =
    (case r of (err, obj, tr) \<Rightarrow>
       (case bpf_object__unload w tr obj of
          None \<Rightarrow> None
        | Some (_, obj1, tr1) \<Rightarrow> Some (err, obj1, tr1)))"

definition bpf_object__load ::
  "world \<Rightarrow> event list \<Rightarrow> bpf_object \<Rightarrow> (int \<times> bpf_object \<times> event list) option" where
  "bpf_object__load w tr obj =
    (if o_loaded obj then Some (- EINVAL, obj, tr)
     else
       let obj0 = obj \<lparr> o_loaded := True \<rparr>
       in case bpf_object__create_maps w tr obj0 of
            None \<Rightarrow> None
          | Some (err1, obj1, tr1) \<Rightarrow>
              if err1 \<noteq> 0 then load_failed w (err1, obj1, tr1)
              else
                (case bpf_object__relocate w tr1 obj1 of
                   None \<Rightarrow> None
                 | Some (err2, obj2, tr2) \<Rightarrow>
                     if err2 \<noteq> 0 then load_failed w (err2, obj2, tr2)
                     else
                       (case bpf_object__load_progs w tr2 obj2 of
                          None \<Rightarrow> None
                        | Some (err3, obj3, tr3) \<Rightarrow>
                            if err3 \<noteq> 0 then load_failed w (err3, obj3, tr3)
                            else Some (0, obj3, tr3))))"

section \<open>Opening an object\<close>

text \<open>
  \<open>bpf_object__new\<close> (libbpf.c:401): the object as \<open>calloc\<close> and the assignments
  leave it.
\<close>

definition bpf_object__new :: "string \<Rightarrow> nat \<Rightarrow> bpf_object" where
  "bpf_object__new path obj_buf_sz =
     \<lparr> o_license = [], o_kern_version = 0, o_programs = [], o_maps = [], o_loaded = False,
       o_has_pseudo_calls = False, o_efile_fd = - 1, o_obj_buf_sz = obj_buf_sz,
       o_elf = None, o_ehdr = None, o_symbols = None, o_strtabidx = 0, o_reloc = [],
       o_maps_shndx = - 1, o_text_shndx = 0, o_btf = None, o_path = path \<rparr>"

text \<open>\<open>bpf_object__elf_finish\<close> (libbpf.c:433).\<close>

definition bpf_object__elf_finish ::
  "world \<Rightarrow> event list \<Rightarrow> bpf_object \<Rightarrow> bpf_object \<times> event list" where
  "bpf_object__elf_finish w tr obj =
    (if o_elf obj = None then (obj, tr)
     else
       let (r, tr1) = zclose w (tr @ [ElfEnd]) (o_efile_fd obj)
       in (obj \<lparr> o_elf := None, o_symbols := None, o_reloc := [], o_efile_fd := - 1,
                 o_obj_buf_sz := 0 \<rparr>, tr1))"

text \<open>\<open>bpf_object__elf_init\<close> (libbpf.c:451).\<close>

definition bpf_object__elf_init ::
  "world \<Rightarrow> parse_world \<Rightarrow> event list \<Rightarrow> bpf_object \<Rightarrow> int \<times> bpf_object \<times> event list" where
  "bpf_object__elf_init w pw tr obj =
    (if o_elf obj \<noteq> None then (- LIBBPF_ERRNO__LIBELF, obj, tr)
     else
       let fd = (if o_obj_buf_sz obj > 0 then o_efile_fd obj else pw_open pw tr (o_path obj));
           tr1 = (if o_obj_buf_sz obj > 0 then tr else tr @ [OpenFile (o_path obj)])
       in if o_obj_buf_sz obj = 0 \<and> fd < 0
            then (- w_errno w tr1, obj \<lparr> o_efile_fd := fd \<rparr>, tr1)
          else
            let obj1 = obj \<lparr> o_efile_fd := fd, o_elf := pw_elf pw tr1 \<rparr>;
                tr2 = tr1 @ [ElfBegin]
            in (case o_elf obj1 of
                  None \<Rightarrow>
                    (case bpf_object__elf_finish w tr2 obj1 of
                       (obj2, tr3) \<Rightarrow> (- LIBBPF_ERRNO__LIBELF, obj2, tr3))
                | Some elf \<Rightarrow>
                    (case elf_ehdr elf of
                       None \<Rightarrow>
                         (case bpf_object__elf_finish w tr2 obj1 of
                            (obj2, tr3) \<Rightarrow> (- LIBBPF_ERRNO__FORMAT, obj2, tr3))
                     | Some ep \<Rightarrow>
                         if e_type ep \<noteq> ET_REL \<or> (e_machine ep \<noteq> 0 \<and> e_machine ep \<noteq> EM_BPF)
                           then (case bpf_object__elf_finish w tr2 (obj1 \<lparr> o_ehdr := Some ep \<rparr>) of
                                   (obj2, tr3) \<Rightarrow> (- LIBBPF_ERRNO__FORMAT, obj2, tr3))
                         else (0, obj1 \<lparr> o_ehdr := Some ep \<rparr>, tr2))))"

text \<open>
  \<open>bpf_object__check_endianness\<close> (libbpf.c:510), on a little-endian host: the first
  byte of the \<open>unsigned int\<close> 1 is 1.
\<close>

definition bpf_object__check_endianness :: "bpf_object \<Rightarrow> int" where
  "bpf_object__check_endianness obj =
    (let first_byte = (1 :: nat);
         ei_data = (case o_ehdr obj of None \<Rightarrow> 0 | Some ep \<Rightarrow> e_ident_data ep)
     in if ei_data = ELFDATA2LSB
          then (if first_byte \<noteq> 1 then - LIBBPF_ERRNO__ENDIAN else 0)
        else if ei_data = ELFDATA2MSB
          then (if first_byte \<noteq> 0 then - LIBBPF_ERRNO__ENDIAN else 0)
        else - LIBBPF_ERRNO__ENDIAN)"

text \<open>\<open>bpf_object__validate\<close> (libbpf.c:1496).\<close>

definition bpf_object__validate :: "bpf_object \<Rightarrow> bool \<Rightarrow> int" where
  "bpf_object__validate obj needs_kver =
    (if needs_kver \<and> o_kern_version obj = 0 then - LIBBPF_ERRNO__KVERSION else 0)"

text \<open>
  \<open>bpf_object__close\<close> (libbpf.c:1806) releases the object; what remains of it are the
  events. \<open>bpf_program__exit\<close> unloads each program once more, which closes nothing
  after \<open>bpf_object__unload\<close>.
\<close>

definition bpf_object__close :: "world \<Rightarrow> event list \<Rightarrow> bpf_object \<Rightarrow> event list option" where
  "bpf_object__close w tr obj =
    (case bpf_object__elf_finish w tr obj of
       (obj1, tr1) \<Rightarrow>
         (case bpf_object__unload w tr1 obj1 of
            None \<Rightarrow> None
          | Some (r, obj2, tr2) \<Rightarrow> Some (tr2 @ [BtfFree])))"

text \<open>
  A pointer to an object as the functions that open one return it: a live object, or
  the address that \<open>ERR_PTR\<close> makes of an \<open>int\<close>, two's complement in 64 bits.
  \<open>ERR_PTR\<close>, \<open>IS_ERR\<close>, \<open>PTR_ERR\<close> and \<open>MAX_ERRNO\<close> are declared in
  linux/err.h, not in libbpf.c: an address is an error when it lies among the last 4095
  addresses. A live object never does.
\<close>

datatype object_ptr = Object bpf_object | Address "64 word"

definition ERR_PTR :: "int \<Rightarrow> object_ptr" where
  "ERR_PTR err = Address (word_of_int err)"

definition MAX_ERRNO :: "64 word" where "MAX_ERRNO = 4095"

fun IS_ERR :: "object_ptr \<Rightarrow> bool" where
  "IS_ERR (Object obj) = False"
| "IS_ERR (Address a) = (a \<ge> - MAX_ERRNO)"

fun PTR_ERR :: "object_ptr \<Rightarrow> int" where
  "PTR_ERR (Object obj) = 0"
| "PTR_ERR (Address a) = sint a"

text \<open>\<open>libbpf_get_error\<close> (libbpf.c:2241).\<close>

definition libbpf_get_error :: "object_ptr \<Rightarrow> int" where
  "libbpf_get_error ptr = (if IS_ERR ptr then PTR_ERR ptr else 0)"

text \<open>
  \<open>__bpf_object__open\<close> (libbpf.c:1506). Each \<open>CHECK_ERR\<close> leaves for \<open>out\<close> when
  the call returned anything but 0; there the object is closed and the code is
  returned through \<open>ERR_PTR\<close>.
\<close>

definition open_failed ::
  "world \<Rightarrow> int \<Rightarrow> bpf_object \<Rightarrow> event list \<Rightarrow> (object_ptr \<times> event list) option" where
  "open_failed w err obj tr = map_option (\<lambda>tr1. (ERR_PTR err, tr1)) (bpf_object__close w tr obj)"

definition bpf_object__open_internal ::
  "world \<Rightarrow> parse_world \<Rightarrow> event list \<Rightarrow> string \<Rightarrow> nat \<Rightarrow> bool
     \<Rightarrow> (object_ptr \<times> event list) option" where
  "bpf_object__open_internal w pw tr path obj_buf_sz needs_kver =
    (if \<not> pw_elf_version pw then Some (ERR_PTR (- LIBBPF_ERRNO__LIBELF), tr)
     else if \<not> w_alloc w tr then Some (ERR_PTR (- ENOMEM), tr @ [Alloc])
     else
       (case bpf_object__elf_init w pw (tr @ [Alloc]) (bpf_object__new path obj_buf_sz) of
          (err1, obj1, tr1) \<Rightarrow>
            if err1 \<noteq> 0 then open_failed w err1 obj1 tr1
            else
              let err2 = bpf_object__check_endianness obj1
              in if err2 \<noteq> 0 then open_failed w err2 obj1 tr1
                 else
                   (case bpf_object__elf_collect w pw tr1 obj1 of
                      None \<Rightarrow> None
                    | Some (err3, obj3, tr3) \<Rightarrow>
                        if err3 \<noteq> 0 then open_failed w err3 obj3 tr3
                        else
                          (case bpf_object__collect_reloc w tr3 obj3 of
                             None \<Rightarrow> None
                           | Some (err4, obj4, tr4) \<Rightarrow>
                               if err4 \<noteq> 0 then open_failed w err4 obj4 tr4
                               else
                                 let err5 = bpf_object__validate obj4 needs_kver
                                 in if err5 \<noteq> 0 then open_failed w err5 obj4 tr4
                                    else
                                      (case bpf_object__elf_finish w tr4 obj4 of
                                         (obj5, tr5) \<Rightarrow> Some (Object obj5, tr5))))))"

text \<open>An object without its two tables: what the loops over maps and programs leave alone.\<close>

definition frame :: "bpf_object \<Rightarrow> bpf_object" where
  "frame obj = obj \<lparr> o_maps := [], o_programs := [] \<rparr>"

text \<open>
  The loop of \<open>bpf_object__load_progs\<close> seen as a recursion over the list of programs
  (the loop reads nothing of the object but the programs ahead, the license, the kernel
  version and what decides \<open>skip\<close>); \<open>load_progs_from_list\<close> below proves that it is
  the same loop.
\<close>

fun load_progs_list ::
  "world \<Rightarrow> event list \<Rightarrow> (bpf_program \<Rightarrow> bool) \<Rightarrow> string \<Rightarrow> 32 word \<Rightarrow> bpf_program list
     \<Rightarrow> (int \<times> bpf_program list \<times> event list) option" where
  "load_progs_list w tr skip license kern_version [] = Some (0, [], tr)"
| "load_progs_list w tr skip license kern_version (prog # progs) =
    (if skip prog then
       (case load_progs_list w tr skip license kern_version progs of
          None \<Rightarrow> None
        | Some (err, progs1, tr1) \<Rightarrow> Some (err, prog # progs1, tr1))
     else
       (case bpf_program__load w tr prog license kern_version of
          None \<Rightarrow> None
        | Some (err, prog1, tr1) \<Rightarrow>
            if err \<noteq> 0 then Some (err, prog1 # progs, tr1)
            else
              (case load_progs_list w tr1 skip license kern_version progs of
                 None \<Rightarrow> None
               | Some (err2, progs2, tr2) \<Rightarrow> Some (err2, prog1 # progs2, tr2))))"

text \<open>Concrete worlds and inputs, for evaluating the definitions.\<close>

definition ex_insn_exit :: bpf_insn where
  "ex_insn_exit = \<lparr> code = 0x95, dst_reg = 0, src_reg = 0, off = 0, imm = 0 \<rparr>"

definition ex_info :: bpf_map_info where
  "ex_info = \<lparr> mi_name = ''cnt'', mi_type = 1, mi_key_size = 4, mi_value_size = 8,
                 mi_max_entries = 16, mi_map_flags = 0, mi_btf_key_type_id = 0,
                 mi_btf_value_type_id = 0 \<rparr>"

definition ex_world_reject :: world where
  "ex_world_reject = \<lparr> w_alloc = (\<lambda>_. True), w_prog_load = (\<lambda>_ _ _. (- 1, [])),
                         w_map_create = (\<lambda>_ _. - 1), w_close = (\<lambda>_ _. 0),
                         w_get_info = (\<lambda>_ _. (0, ex_info)), w_open_root = (\<lambda>_. 7),
                         w_dup3 = (\<lambda>_ _ newfd. newfd), w_errno = (\<lambda>_. 5) \<rparr>"

definition ex_world_nomem :: world where
  "ex_world_nomem = ex_world_reject \<lparr> w_alloc := (\<lambda>_. False) \<rparr>"

definition ex_world_close_fails :: world where
  "ex_world_close_fails = ex_world_reject \<lparr> w_close := (\<lambda>_ _. - 1) \<rparr>"

definition ex_map :: bpf_map where
  "ex_map = \<lparr> m_fd = 5, m_name = Some ''old'', m_offset = 0, m_map_ifindex = 0,
               m_def = zero_map_def, m_btf_key_type_id = 0, m_btf_value_type_id = 0 \<rparr>"

definition ex_attr :: "bpf_prog_type \<Rightarrow> bpf_load_program_attr" where
  "ex_attr t = \<lparr> la_prog_type = t, la_expected_attach_type = 0, la_name = Some ''prog'',
                  la_insns = Some [ex_insn_exit], la_insns_cnt = 1, la_license = ''GPL'',
                  la_kern_version = 0, la_prog_ifindex = 0 \<rparr>"

definition ex_insn_call :: bpf_insn where
  "ex_insn_call = \<lparr> code = 0x85, dst_reg = 0, src_reg = 1, off = 0, imm = 0 \<rparr>"

definition ex_text :: bpf_program where
  "ex_text = \<lparr> p_idx = 2, p_name = Some ''.text'', p_prog_ifindex = 0,
                 p_section_name = Some ''.text'', p_insns = Some [ex_insn_exit],
                 p_insns_cnt = 1, p_main_prog_cnt = 0, p_type = BPF_PROG_TYPE_KPROBE,
                 p_reloc_desc = None, p_nr_reloc = 0, p_instances_nr = - 1,
                 p_instances_fds = None, p_preprocessor = None,
                 p_expected_attach_type = 0 \<rparr>"

definition ex_caller :: bpf_program where
  "ex_caller = \<lparr> p_idx = 3, p_name = Some ''foo'', p_prog_ifindex = 0,
                   p_section_name = Some ''kprobe/foo'',
                   p_insns = Some [ex_insn_call, ex_insn_exit],
                   p_insns_cnt = 2, p_main_prog_cnt = 0, p_type = BPF_PROG_TYPE_KPROBE,
                   p_reloc_desc = Some [\<lparr> r_type = RELO_CALL, r_insn_idx = 0,
                                           r_map_idx_text_off = 0 \<rparr>],
                   p_nr_reloc = 1, p_instances_nr = - 1,
                   p_instances_fds = None, p_preprocessor = None,
                   p_expected_attach_type = 0 \<rparr>"

definition ex_obj :: bpf_object where
  "ex_obj = \<lparr> o_license = ''GPL'', o_kern_version = 1, o_programs = [ex_text, ex_caller],
                o_maps = [], o_loaded = False, o_has_pseudo_calls = True, o_efile_fd = - 1,
                o_obj_buf_sz = 0, o_elf = None, o_ehdr = None, o_symbols = None,
                o_strtabidx = 1, o_reloc = [], o_maps_shndx = - 1, o_text_shndx = 2,
                o_btf = None, o_path = ''a.o'' \<rparr>"

definition ex_world_accept :: world where
  "ex_world_accept = ex_world_reject \<lparr> w_prog_load := (\<lambda>_ _ _. (3, [])),
                                        w_map_create := (\<lambda>_ _. 4) \<rparr>"

definition ex_obj_nocalls :: bpf_object where
  "ex_obj_nocalls = ex_obj \<lparr> o_programs := [ex_text], o_has_pseudo_calls := False \<rparr>"

definition ex_text_attr :: bpf_load_program_attr where
  "ex_text_attr = \<lparr> la_prog_type = BPF_PROG_TYPE_KPROBE, la_expected_attach_type = 0,
                     la_name = Some ''.text'', la_insns = Some [ex_insn_exit], la_insns_cnt = 1,
                     la_license = ''GPL'', la_kern_version = 1, la_prog_ifindex = 0 \<rparr>"

definition ex_maps_data :: Elf_Data where
  "ex_maps_data = \<lparr> d_buf = [1, 0, 0, 0,  4, 0, 0, 0,  8, 0, 0, 0,  16, 0, 0, 0,
                               0, 0, 0, 0,  0, 0, 0, 0,
                               2, 0, 0, 0,  4, 0, 0, 0,  4, 0, 0, 0,  1, 0, 0, 0,
                               0, 0, 0, 0,  0, 0, 0, 0],
                      d_size = 48, d_syms = [], d_rels = [] \<rparr>"

definition ex_symtab :: Elf_Data where
  "ex_symtab = \<lparr> d_buf = [], d_size = 72,
                   d_syms = [Some \<lparr> st_name = 0, st_info = 0, st_shndx = 0, st_value = 0 \<rparr>,
                             Some \<lparr> st_name = 1, st_info = 0x11, st_shndx = 1, st_value = 24 \<rparr>,
                             Some \<lparr> st_name = 3, st_info = 0x11, st_shndx = 1, st_value = 0 \<rparr>],
                   d_rels = [] \<rparr>"

definition ex_strtab :: Elf_Data where
  "ex_strtab = \<lparr> d_buf = [0, 0x62, 0, 0x61, 0], d_size = 5, d_syms = [], d_rels = [] \<rparr>"

definition ex_elf :: Elf where
  "ex_elf = \<lparr> elf_scns =
                  [\<lparr> scn_shdr = Some \<lparr> sh_type = 1, sh_flags = 3, sh_link = 0, sh_info = 0,
                                        sh_size = 48, sh_entsize = 0 \<rparr>,
                     scn_name = Some ''maps'', scn_data = Some ex_maps_data \<rparr>,
                   \<lparr> scn_shdr = Some \<lparr> sh_type = 2, sh_flags = 0, sh_link = 3, sh_info = 1,
                                        sh_size = 72, sh_entsize = 24 \<rparr>,
                     scn_name = Some ''.symtab'', scn_data = Some ex_symtab \<rparr>,
                   \<lparr> scn_shdr = Some \<lparr> sh_type = 3, sh_flags = 0, sh_link = 0, sh_info = 0,
                                        sh_size = 5, sh_entsize = 0 \<rparr>,
                     scn_name = Some ''.strtab'', scn_data = Some ex_strtab \<rparr>],
                elf_ehdr = Some \<lparr> e_ident_data = 1, e_type = 1, e_machine = 247 \<rparr>,
                elf_shstr_rawdata = True,
                elf_strptr = (\<lambda>sec ofs. if sec = 3 \<and> ofs = 1 then Some ''b''
                                       else if sec = 3 \<and> ofs = 3 then Some ''a''
                                       else None) \<rparr>"

definition ex_parse_obj :: bpf_object where
  "ex_parse_obj = \<lparr> o_license = [], o_kern_version = 0, o_programs = [], o_maps = [],
                      o_loaded = False, o_has_pseudo_calls = False, o_efile_fd = 3,
                      o_obj_buf_sz = 0, o_elf = Some ex_elf, o_ehdr = elf_ehdr ex_elf,
                      o_symbols = Some ex_symtab, o_strtabidx = 3, o_reloc = [],
                      o_maps_shndx = 1, o_text_shndx = 0, o_btf = None, o_path = ''a.o'' \<rparr>"

definition ex_symtab5 :: Elf_Data where
  "ex_symtab5 = \<lparr> d_buf = [], d_size = 120,
                    d_syms = [Some \<lparr> st_name = 1, st_info = 0x11, st_shndx = 1, st_value = 0 \<rparr>,
                              Some \<lparr> st_name = 1, st_info = 0x11, st_shndx = 1, st_value = 8 \<rparr>,
                              Some \<lparr> st_name = 1, st_info = 0x11, st_shndx = 1, st_value = 16 \<rparr>,
                              Some \<lparr> st_name = 1, st_info = 0x11, st_shndx = 1, st_value = 24 \<rparr>,
                              Some \<lparr> st_name = 1, st_info = 0x11, st_shndx = 1, st_value = 32 \<rparr>],
                    d_rels = [] \<rparr>"

definition ex_fill_obj :: bpf_object where
  "ex_fill_obj = ex_parse_obj \<lparr> o_maps := [zero_map \<lparr> m_fd := - 1 \<rparr>, zero_map \<lparr> m_fd := - 1 \<rparr>] \<rparr>"

definition ex_short_data :: Elf_Data where
  "ex_short_data = \<lparr> d_buf = [1, 0, 0, 0,  4, 0, 0, 0,  8, 0, 0, 0], d_size = 12,
                       d_syms = [], d_rels = [] \<rparr>"

definition ex_bad_data :: Elf_Data where
  "ex_bad_data = \<lparr> d_buf = [1, 0, 0, 0,  4, 0, 0, 0,  8, 0, 0, 0,  16, 0, 0, 0,
                              0, 0, 0, 0,  0, 0, 7, 0],
                     d_size = 24, d_syms = [], d_rels = [] \<rparr>"

definition ex_map_sym :: GElf_Sym where
  "ex_map_sym = \<lparr> st_name = 3, st_info = 0x11, st_shndx = 1, st_value = 0 \<rparr>"

definition ex_license_data :: Elf_Data where
  "ex_license_data = \<lparr> d_buf = [0x47, 0x50, 0x4c, 0], d_size = 4, d_syms = [], d_rels = [] \<rparr>"

definition ex_elf_nosymtab :: Elf where
  "ex_elf_nosymtab =
     \<lparr> elf_scns = [\<lparr> scn_shdr = Some \<lparr> sh_type = 1, sh_flags = 3, sh_link = 0, sh_info = 0,
                                        sh_size = 4, sh_entsize = 0 \<rparr>,
                     scn_name = Some ''license'', scn_data = Some ex_license_data \<rparr>,
                   \<lparr> scn_shdr = Some \<lparr> sh_type = 3, sh_flags = 0, sh_link = 0, sh_info = 0,
                                        sh_size = 5, sh_entsize = 0 \<rparr>,
                     scn_name = Some ''.strtab'', scn_data = Some ex_strtab \<rparr>],
       elf_ehdr = Some \<lparr> e_ident_data = 1, e_type = 1, e_machine = 247 \<rparr>,
       elf_shstr_rawdata = True,
       elf_strptr = (\<lambda>sec ofs. None) \<rparr>"

definition ex_parse_world :: "Elf \<Rightarrow> parse_world" where
  "ex_parse_world elf = \<lparr> pw_open = (\<lambda>_ _. 3), pw_elf = (\<lambda>_. Some elf), pw_elf_version = True,
                           pw_btf_new = (\<lambda>_ _. None) \<rparr>"

section \<open>Properties\<close>

lemmas errno_defs =
  ENOENT_def ENOMEM_def EINVAL_def LIBBPF_ERRNO__LIBELF_def LIBBPF_ERRNO__FORMAT_def
  LIBBPF_ERRNO__KVERSION_def LIBBPF_ERRNO__ENDIAN_def LIBBPF_ERRNO__INTERNAL_def
  LIBBPF_ERRNO__RELOC_def LIBBPF_ERRNO__LOAD_def LIBBPF_ERRNO__VERIFY_def
  LIBBPF_ERRNO__PROG2BIG_def LIBBPF_ERRNO__KVER_def LIBBPF_ERRNO__PROGTYPE_def

lemma submissions_append: "submissions (xs @ ys) = submissions xs @ submissions ys"
  by (induction xs rule: submissions.induct) simp_all

lemma closes_append: "closes (xs @ ys) = closes xs @ closes ys"
  by (induction xs rule: closes.induct) simp_all

subsection \<open>Classification of a submission\<close>

text \<open>
  C3 (as amended). For a submission with instructions and a non-zero count: a
  non-negative kernel return is success and the descriptor is written through \<open>pfd\<close>;
  a failure with a log buffer holding a non-empty verifier log is VERIFY; otherwise a
  count of at least \<open>BPF_MAXINSNS\<close> is PROG2BIG; otherwise, if the declared kind is not
  kprobe, the submission is repeated once as kprobe with attach kind zero and without
  log, a successful probe is closed and gives PROGTYPE; in the remaining cases (probe
  failed, or kind already kprobe and no probe made) the result is KVER when the log
  buffer exists and LOAD when it could not be allocated.
\<close>

theorem load_program_classification:
  fixes w tr type expected_attach_type name insns insns_cnt license kern_version prog_ifindex
  defines "attr \<equiv> \<lparr> la_prog_type = type,
                     la_expected_attach_type = expected_attach_type,
                     la_name = name, la_insns = insns,
                     la_insns_cnt = size_t_of_int insns_cnt,
                     la_license = license, la_kern_version = kern_version,
                     la_prog_ifindex = prog_ifindex \<rparr>"
  defines "probe \<equiv> attr \<lparr> la_prog_type := BPF_PROG_TYPE_KPROBE, la_expected_attach_type := 0 \<rparr>"
  defines "log_buf \<equiv> w_alloc w tr"
  defines "r1 \<equiv> w_prog_load w (tr @ [Alloc]) attr log_buf"
  defines "r2 \<equiv> w_prog_load w (tr @ [Alloc, ProgLoad attr log_buf]) probe False"
  defines "res \<equiv> load_program w tr type expected_attach_type name insns insns_cnt license
                     kern_version prog_ifindex"
  assumes "insns = Some body" and "size_t_of_int insns_cnt \<noteq> 0"
  shows "fst res =
           (if 0 \<le> fst r1 then 0
            else if log_buf \<and> snd r1 \<noteq> [] then - LIBBPF_ERRNO__VERIFY
            else if BPF_MAXINSNS \<le> size_t_of_int insns_cnt then - LIBBPF_ERRNO__PROG2BIG
            else if type \<noteq> BPF_PROG_TYPE_KPROBE \<and> 0 \<le> fst r2 then - LIBBPF_ERRNO__PROGTYPE
            else if log_buf then - LIBBPF_ERRNO__KVER
            else - LIBBPF_ERRNO__LOAD)
     \<and> fst (snd res) = (if 0 \<le> fst r1 then Some (fst r1) else None)
     \<and> submissions (snd (snd res)) = submissions tr @
           (if fst r1 < 0 \<and> \<not> (log_buf \<and> snd r1 \<noteq> []) \<and> size_t_of_int insns_cnt < BPF_MAXINSNS
               \<and> type \<noteq> BPF_PROG_TYPE_KPROBE
            then [attr, probe] else [attr])
     \<and> closes (snd (snd res)) = closes tr @
           (if fst r1 < 0 \<and> \<not> (log_buf \<and> snd r1 \<noteq> []) \<and> size_t_of_int insns_cnt < BPF_MAXINSNS
               \<and> type \<noteq> BPF_PROG_TYPE_KPROBE \<and> 0 \<le> fst r2
            then [fst r2] else [])"
  using assms(7,8) unfolding res_def r1_def r2_def log_buf_def probe_def attr_def load_program_def
  by (simp add: Let_def split_beta submissions_append closes_append)

theorem load_program_classification_witness:
  "fst (load_program ex_world_reject [] BPF_PROG_TYPE_XDP 0 (Some ''prog'')
          (Some [ex_insn_exit]) 1 ''GPL'' 0 0) = - LIBBPF_ERRNO__KVER
   \<and> submissions (snd (snd (load_program ex_world_reject [] BPF_PROG_TYPE_XDP 0 (Some ''prog'')
          (Some [ex_insn_exit]) 1 ''GPL'' 0 0)))
       = [ex_attr BPF_PROG_TYPE_XDP, ex_attr BPF_PROG_TYPE_KPROBE]"
  using load_program_classification [where w = ex_world_reject and tr = "[]"
      and type = BPF_PROG_TYPE_XDP and expected_attach_type = 0 and name = "Some ''prog''"
      and insns = "Some [ex_insn_exit]" and body = "[ex_insn_exit]" and insns_cnt = 1
      and license = "''GPL''" and kern_version = 0 and prog_ifindex = 0]
  by (simp add: ex_world_reject_def ex_attr_def size_t_of_int_def BPF_MAXINSNS_def)

text \<open>
  C3 as stated fails: a kprobe program whose submission fails with an empty log and a
  small count is submitted once only (no retry is made), and when the log buffer cannot
  be allocated the result after a failed probe is LOAD, not KVER.
\<close>

theorem load_program_retry_counterexample:
  "submissions (snd (snd (load_program ex_world_reject [] BPF_PROG_TYPE_KPROBE 0 (Some ''prog'')
          (Some [ex_insn_exit]) 1 ''GPL'' 0 0))) = [ex_attr BPF_PROG_TYPE_KPROBE]
   \<and> fst (load_program ex_world_nomem [] BPF_PROG_TYPE_XDP 0 (Some ''prog'')
          (Some [ex_insn_exit]) 1 ''GPL'' 0 0) = - LIBBPF_ERRNO__LOAD
   \<and> - LIBBPF_ERRNO__LOAD \<noteq> - LIBBPF_ERRNO__KVER"
  by (simp add: load_program_def ex_world_reject_def ex_world_nomem_def ex_attr_def
      size_t_of_int_def BPF_MAXINSNS_def Let_def errno_defs)

text \<open>
  C9. A program of kprobe kind whose submission fails with an empty verifier log (or
  without a log buffer) and a count below \<open>BPF_MAXINSNS\<close> is submitted exactly once: the
  events added are the allocation of the log buffer and that one submission. The result
  is KVER when the log buffer exists and LOAD when it could not be allocated.
\<close>

theorem load_program_kprobe_no_retry:
  fixes w tr expected_attach_type name insns insns_cnt license kern_version prog_ifindex
  defines "attr \<equiv> \<lparr> la_prog_type = BPF_PROG_TYPE_KPROBE,
                     la_expected_attach_type = expected_attach_type,
                     la_name = name, la_insns = insns,
                     la_insns_cnt = size_t_of_int insns_cnt,
                     la_license = license, la_kern_version = kern_version,
                     la_prog_ifindex = prog_ifindex \<rparr>"
  assumes "insns = Some body" and "size_t_of_int insns_cnt \<noteq> 0"
    and "size_t_of_int insns_cnt < BPF_MAXINSNS"
    and "fst (w_prog_load w (tr @ [Alloc]) attr (w_alloc w tr)) < 0"
    and "\<not> (w_alloc w tr \<and> snd (w_prog_load w (tr @ [Alloc]) attr (w_alloc w tr)) \<noteq> [])"
  shows "load_program w tr BPF_PROG_TYPE_KPROBE expected_attach_type name insns insns_cnt
           license kern_version prog_ifindex
         = (if w_alloc w tr then - LIBBPF_ERRNO__KVER else - LIBBPF_ERRNO__LOAD, None,
            tr @ [Alloc, ProgLoad attr (w_alloc w tr)])"
  using assms(2-6) unfolding attr_def load_program_def
  by (auto simp add: Let_def split_beta)

theorem load_program_kprobe_no_retry_witness:
  "load_program ex_world_reject [] BPF_PROG_TYPE_KPROBE 0 (Some ''prog'')
          (Some [ex_insn_exit]) 1 ''GPL'' 0 0
     = (- LIBBPF_ERRNO__KVER, None, [Alloc, ProgLoad (ex_attr BPF_PROG_TYPE_KPROBE) True])"
  using load_program_kprobe_no_retry [where w = ex_world_reject and tr = "[]"
      and expected_attach_type = 0 and name = "Some ''prog''"
      and insns = "Some [ex_insn_exit]" and body = "[ex_insn_exit]" and insns_cnt = 1
      and license = "''GPL''" and kern_version = 0 and prog_ifindex = 0]
  by (simp add: ex_world_reject_def ex_attr_def size_t_of_int_def BPF_MAXINSNS_def)

subsection \<open>Reuse of a descriptor: what a failure leaves behind\<close>

text \<open>
  C1 (as amended). When \<open>bpf_map__reuse_fd\<close> fails while querying the kernel,
  duplicating the name, opening the placeholder descriptor or duplicating the
  descriptor, the map is left exactly as it was. When those steps succeed and closing
  the map's prior descriptor fails, \<open>zclose\<close> has already stored -1 in the map's
  descriptor; name, definition record and type ids are as before.
\<close>

theorem bpf_map__reuse_fd_failure_state:
  fixes w tr mp fd
  defines "r0 \<equiv> w_get_info w tr fd"
  defines "tr2 \<equiv> tr @ [GetInfo fd, Alloc]"
  defines "new_fd \<equiv> w_open_root w tr2"
  defines "dup_fd \<equiv> w_dup3 w (tr2 @ [OpenRoot]) fd new_fd"
  defines "earlier_ok \<equiv> fst r0 = 0 \<and> w_alloc w (tr @ [GetInfo fd]) \<and> 0 \<le> new_fd \<and> 0 \<le> dup_fd"
  defines "close_ok \<equiv> fst (zclose w (tr2 @ [OpenRoot, Dup3 fd new_fd]) (m_fd mp)) = 0"
  assumes "\<not> (earlier_ok \<and> close_ok)"
  shows "fst (snd (bpf_map__reuse_fd w tr mp fd)) = (if earlier_ok then mp \<lparr> m_fd := - 1 \<rparr> else mp)"
  using assms(7) unfolding close_ok_def earlier_ok_def dup_fd_def new_fd_def tr2_def r0_def
    bpf_map__reuse_fd_def
  by (auto simp add: Let_def split_beta)

theorem bpf_map__reuse_fd_failure_state_witness:
  "fst (snd (bpf_map__reuse_fd ex_world_nomem [] ex_map 9)) = ex_map
   \<and> fst (snd (bpf_map__reuse_fd ex_world_close_fails [] ex_map 9)) = ex_map \<lparr> m_fd := - 1 \<rparr>"
  using bpf_map__reuse_fd_failure_state [where w = ex_world_nomem and tr = "[]" and mp = ex_map
      and fd = 9]
    bpf_map__reuse_fd_failure_state [where w = ex_world_close_fails and tr = "[]"
      and mp = ex_map and fd = 9]
  by (simp add: ex_world_nomem_def ex_world_close_fails_def ex_world_reject_def ex_map_def
      zclose_def)

text \<open>
  C1 as stated fails: with the map holding descriptor 5 and \<open>close\<close> failing, the call
  fails (it returns \<open>-errno\<close>) and the map's descriptor has become -1.
\<close>

theorem bpf_map__reuse_fd_close_counterexample:
  "fst (bpf_map__reuse_fd ex_world_close_fails [] ex_map 9) = - 5
   \<and> m_fd (fst (snd (bpf_map__reuse_fd ex_world_close_fails [] ex_map 9))) = - 1
   \<and> m_fd ex_map = 5"
  by (simp add: bpf_map__reuse_fd_def ex_world_close_fails_def ex_world_reject_def ex_map_def
      zclose_def Let_def)

subsection \<open>Relocation of local calls\<close>

lemma int_of_size_t_small: "n < 2 ^ 31 \<Longrightarrow> int_of_size_t n = int n"
  unfolding int_of_size_t_def
  by (simp add: signed_of_nat signed_take_bit_int_eq_self)

lemma reloc_patch_length [simp]: "length (reloc_patch m maps ins d) = length ins"
  by (simp add: reloc_patch_def Let_def)

lemma foldl_reloc_patch_length [simp]:
  "length (foldl (reloc_patch m maps) ins ds) = length ins"
  by (induction ds arbitrary: ins) simp_all

lemma reloc_patch_append:
  "nat (r_insn_idx d) < length xs \<Longrightarrow>
     reloc_patch m maps xs d @ ys = reloc_patch m maps (xs @ ys) d"
  by (simp add: reloc_patch_def Let_def list_update_append1 nth_append)

lemma relocate_loop_grown:
  assumes "p_idx prog \<noteq> o_text_shndx obj" and "p_main_prog_cnt prog \<noteq> 0"
    and "p_insns prog = Some ins" and "p_insns_cnt prog = length ins" and "length ins < 2 ^ 31"
    and "\<forall>d\<in>set ds. relo_in_range (length ins) (length (o_maps obj)) d"
  shows "relocate_loop w tr obj prog ds
         = Some (0, prog \<lparr> p_insns := Some (foldl (reloc_patch (p_main_prog_cnt prog) (o_maps obj)) ins ds) \<rparr>, tr)"
  using assms
proof (induction ds arbitrary: prog ins)
  case Nil
  then show ?case by simp
next
  case (Cons d ds)
  show ?case
  proof (cases "r_type d")
    case RELO_LD64
    let ?ins' = "reloc_patch (p_main_prog_cnt prog) (o_maps obj) ins d"
    let ?prog' = "prog \<lparr> p_insns := Some ?ins' \<rparr>"
    have step: "relocate_loop w tr obj prog (d # ds) = relocate_loop w tr obj ?prog' ds"
      using Cons.prems RELO_LD64
      by (simp add: relo_in_range_def buffer_def int_of_size_t_small reloc_patch_def Let_def)
    have "relocate_loop w tr obj ?prog' ds
          = Some (0, ?prog' \<lparr> p_insns := Some (foldl (reloc_patch (p_main_prog_cnt ?prog') (o_maps obj)) ?ins' ds) \<rparr>, tr)"
      by (rule Cons.IH) (use Cons.prems in simp_all)
    with step show ?thesis by simp
  next
    case RELO_CALL
    let ?ins' = "reloc_patch (p_main_prog_cnt prog) (o_maps obj) ins d"
    let ?prog' = "prog \<lparr> p_insns := Some ?ins' \<rparr>"
    have rt: "bpf_program__reloc_text w tr prog obj d = Some (0, ?prog', tr)"
      using Cons.prems RELO_CALL
      by (simp add: bpf_program__reloc_text_def relo_in_range_def buffer_def reloc_patch_def Let_def)
    have step: "relocate_loop w tr obj prog (d # ds) = relocate_loop w tr obj ?prog' ds"
      using RELO_CALL rt by simp
    have "relocate_loop w tr obj ?prog' ds
          = Some (0, ?prog' \<lparr> p_insns := Some (foldl (reloc_patch (p_main_prog_cnt ?prog') (o_maps obj)) ?ins' ds) \<rparr>, tr)"
      by (rule Cons.IH) (use Cons.prems in simp_all)
    with step show ?thesis by simp
  qed
qed

lemma reloc_patch_Nil [simp]: "reloc_patch m maps ins d = [] \<longleftrightarrow> ins = []"
  using reloc_patch_length [of m maps ins d] by (metis length_0_conv)

lemma reloc_patch_LD64_indep:
  "r_type d = RELO_LD64 \<Longrightarrow> reloc_patch m maps ins d = reloc_patch m' maps ins d"
  by (simp add: reloc_patch_def)

lemma relo_in_range_mono:
  "relo_in_range n k d \<Longrightarrow> n \<le> n' \<Longrightarrow> relo_in_range n' k d"
  by (auto simp add: relo_in_range_def)

lemma small_mod64: "(n::nat) < 2 ^ 31 \<Longrightarrow> n mod 2 ^ 64 = n"
  by simp

lemma relocate_loop_fresh:
  assumes "p_idx prog \<noteq> o_text_shndx obj" and "p_main_prog_cnt prog = 0"
    and "p_insns prog = Some body" and "p_insns_cnt prog = length body" and "body \<noteq> []"
    and "bpf_object__find_prog_by_idx obj (o_text_shndx obj) = Some text"
    and "p_insns text = Some tbody" and "p_insns_cnt text = length tbody"
    and "length body + length tbody < 2 ^ 31"
    and "w_alloc w tr"
    and "\<forall>d\<in>set ds. relo_in_range (length body) (length (o_maps obj)) d"
  shows "relocate_loop w tr obj prog ds =
    (if \<exists>d\<in>set ds. r_type d = RELO_CALL
     then Some (0, prog \<lparr> p_insns := Some (foldl (reloc_patch (length body) (o_maps obj))
                                              (body @ tbody) ds),
                           p_main_prog_cnt := length body,
                           p_insns_cnt := length body + length tbody \<rparr>, tr @ [Alloc])
     else Some (0, prog \<lparr> p_insns := Some (foldl (reloc_patch (length body) (o_maps obj))
                                              body ds) \<rparr>, tr))"
  using assms
proof (induction ds arbitrary: prog body)
  case Nil
  then show ?case by simp
next
  case (Cons d ds)
  let ?m = "length body"
  have d_ok: "relo_in_range ?m (length (o_maps obj)) d" using Cons.prems by simp
  show ?case
  proof (cases "r_type d")
    case RELO_LD64
    let ?body' = "reloc_patch ?m (o_maps obj) body d"
    let ?prog' = "prog \<lparr> p_insns := Some ?body' \<rparr>"
    have small: "?m < 2 ^ 31" using Cons.prems by simp
    have step: "relocate_loop w tr obj prog (d # ds) = relocate_loop w tr obj ?prog' ds"
      using Cons.prems(3,4) d_ok RELO_LD64 small
      by (simp add: relo_in_range_def buffer_def int_of_size_t_small reloc_patch_def Let_def)
    have app: "?body' @ tbody = reloc_patch ?m (o_maps obj) (body @ tbody) d"
      using d_ok by (intro reloc_patch_append) (auto simp add: relo_in_range_def)
    have IH: "relocate_loop w tr obj ?prog' ds =
      (if \<exists>d\<in>set ds. r_type d = RELO_CALL
       then Some (0, ?prog' \<lparr> p_insns := Some (foldl (reloc_patch (length ?body') (o_maps obj))
                                              (?body' @ tbody) ds),
                           p_main_prog_cnt := length ?body',
                           p_insns_cnt := length ?body' + length tbody \<rparr>, tr @ [Alloc])
       else Some (0, ?prog' \<lparr> p_insns := Some (foldl (reloc_patch (length ?body') (o_maps obj))
                                              ?body' ds) \<rparr>, tr))"
      by (rule Cons.IH) (use Cons.prems in simp_all)
    show ?thesis
      unfolding step IH using RELO_LD64 by (simp add: app)
  next
    case RELO_CALL
    let ?ins' = "reloc_patch ?m (o_maps obj) (body @ tbody) d"
    let ?prog' = "prog \<lparr> p_insns := Some ?ins', p_main_prog_cnt := ?m,
                         p_insns_cnt := ?m + length tbody \<rparr>"
    have pos: "?m \<noteq> 0" using Cons.prems by simp
    have sum: "(?m + length tbody) mod 2 ^ 64 = ?m + length tbody"
      using Cons.prems(9) by (intro small_mod64)
    have rt: "bpf_program__reloc_text w tr prog obj d = Some (0, ?prog', tr @ [Alloc])"
      using Cons.prems(1-8,10) d_ok RELO_CALL sum
      by (simp add: bpf_program__reloc_text_def relo_in_range_def buffer_def reloc_patch_def
          Let_def nth_append)
    have step: "relocate_loop w tr obj prog (d # ds) = relocate_loop w (tr @ [Alloc]) obj ?prog' ds"
      using RELO_CALL rt by simp
    have rest: "relocate_loop w (tr @ [Alloc]) obj ?prog' ds
          = Some (0, ?prog' \<lparr> p_insns := Some (foldl (reloc_patch (p_main_prog_cnt ?prog') (o_maps obj)) ?ins' ds) \<rparr>, tr @ [Alloc])"
    proof (rule relocate_loop_grown)
      show "\<forall>d\<in>set ds. relo_in_range (length ?ins') (length (o_maps obj)) d"
        using Cons.prems(11) by (auto intro: relo_in_range_mono)
    qed (use Cons.prems pos in simp_all)
    show ?thesis
      unfolding step rest using RELO_CALL by simp
  qed
qed

text \<open>
  C2. Take a program that is not the text program, freshly parsed (instruction count
  at least 1, \<open>main_prog_cnt\<close> 0), whose relocation records lie inside its instructions
  and contain at least one local-call record. Then relocation succeeds, with one single
  reallocation: the instruction vector becomes the program's instructions followed by
  the whole text program, patched record by record (each local-call record at index
  \<open>i\<close> adding \<open>main_prog_cnt - i\<close> to the immediate there); \<open>main_prog_cnt\<close> is the
  prior instruction count and the new count is the sum of both. For the text program
  itself every call of \<open>bpf_program__reloc_text\<close> fails with RELOC.
\<close>

theorem bpf_program__relocate_local_calls:
  assumes "p_idx prog \<noteq> o_text_shndx obj" and "p_main_prog_cnt prog = 0"
    and "p_insns prog = Some body" and "p_insns_cnt prog = length body" and "body \<noteq> []"
    and "bpf_object__find_prog_by_idx obj (o_text_shndx obj) = Some tprog"
    and "p_insns tprog = Some tbody" and "p_insns_cnt tprog = length tbody"
    and "length body + length tbody < 2 ^ 31"
    and "w_alloc w tr"
    and "p_reloc_desc prog = Some ds" and "p_nr_reloc prog = int (length ds)"
    and "\<forall>d\<in>set ds. relo_in_range (length body) (length (o_maps obj)) d"
    and "\<exists>d\<in>set ds. r_type d = RELO_CALL"
  shows "bpf_program__relocate w tr prog obj =
     Some (0, prog \<lparr> p_insns := Some (foldl (reloc_patch (length body) (o_maps obj))
                                              (body @ tbody) ds),
                      p_main_prog_cnt := length body,
                      p_insns_cnt := length body + length tbody,
                      p_reloc_desc := None, p_nr_reloc := 0 \<rparr>, tr @ [Alloc])
     \<and> bpf_program__reloc_text w' tr' tprog obj relo = Some (- LIBBPF_ERRNO__RELOC, tprog, tr')"
proof
  have "relocate_loop w tr obj prog ds =
     Some (0, prog \<lparr> p_insns := Some (foldl (reloc_patch (length body) (o_maps obj))
                                              (body @ tbody) ds),
                           p_main_prog_cnt := length body,
                           p_insns_cnt := length body + length tbody \<rparr>, tr @ [Alloc])"
    using relocate_loop_fresh [OF assms(1-10) assms(13)] assms(14) by simp
  then show "bpf_program__relocate w tr prog obj =
     Some (0, prog \<lparr> p_insns := Some (foldl (reloc_patch (length body) (o_maps obj))
                                              (body @ tbody) ds),
                      p_main_prog_cnt := length body,
                      p_insns_cnt := length body + length tbody,
                      p_reloc_desc := None, p_nr_reloc := 0 \<rparr>, tr @ [Alloc])"
    using assms(11,12) by (simp add: bpf_program__relocate_def)
next
  have "p_idx tprog = o_text_shndx obj"
    using assms(6) unfolding bpf_object__find_prog_by_idx_def
    by (auto simp add: find_Some_iff)
  then show "bpf_program__reloc_text w' tr' tprog obj relo = Some (- LIBBPF_ERRNO__RELOC, tprog, tr')"
    by (simp add: bpf_program__reloc_text_def)
qed

theorem bpf_program__relocate_local_calls_witness:
  "bpf_program__relocate ex_world_reject [] ex_caller ex_obj =
     Some (0, ex_caller \<lparr> p_insns := Some [ex_insn_call \<lparr> imm := 2 \<rparr>, ex_insn_exit, ex_insn_exit],
                           p_main_prog_cnt := 2, p_insns_cnt := 3,
                           p_reloc_desc := None, p_nr_reloc := 0 \<rparr>, [Alloc])
   \<and> bpf_program__reloc_text ex_world_reject [] ex_text ex_obj
        \<lparr> r_type = RELO_CALL, r_insn_idx = 0, r_map_idx_text_off = 0 \<rparr>
       = Some (- LIBBPF_ERRNO__RELOC, ex_text, [])"
  using bpf_program__relocate_local_calls [where prog = ex_caller and obj = ex_obj
      and body = "[ex_insn_call, ex_insn_exit]" and tprog = ex_text and tbody = "[ex_insn_exit]"
      and w = ex_world_reject and tr = "[]"
      and ds = "[\<lparr> r_type = RELO_CALL, r_insn_idx = 0, r_map_idx_text_off = 0 \<rparr>]"
      and w' = ex_world_reject and tr' = "[]"
      and relo = "\<lparr> r_type = RELO_CALL, r_insn_idx = 0, r_map_idx_text_off = 0 \<rparr>"]
  by (simp add: ex_caller_def ex_obj_def ex_text_def ex_world_reject_def
      bpf_object__find_prog_by_idx_def relo_in_range_def reloc_patch_def ex_insn_call_def)

subsection \<open>Loading an object twice\<close>

lemmas ex_defs = ex_world_reject_def ex_world_accept_def ex_obj_def ex_text_def ex_caller_def
  ex_insn_call_def ex_insn_exit_def

lemmas load_defs = bpf_object__load_def bpf_object__create_maps_def
  bpf_object__create_maps_from.simps bpf_object__relocate_def bpf_object__relocate_from.simps
  bpf_program__relocate_def bpf_program__reloc_text_def bpf_object__find_prog_by_idx_def
  bpf_object__load_progs_def bpf_object__load_progs_from.simps
  bpf_program__is_function_storage_def bpf_program__load_def load_program_def
  load_failed_def bpf_object__unload_def bpf_program__unload_def zclose_def
  int_of_size_t_def size_t_of_int_def BPF_MAXINSNS_def buffer_def Let_def

lemma frame_maps [simp]: "frame (obj \<lparr> o_maps := ms \<rparr>) = frame obj"
  by (simp add: frame_def)

lemma frame_programs [simp]: "frame (obj \<lparr> o_programs := ps \<rparr>) = frame obj"
  by (simp add: frame_def)

lemma create_maps_from_frame:
  "bpf_object__create_maps_from w tr obj i = Some (err, obj', tr') \<Longrightarrow> frame obj' = frame obj"
proof (induction w tr obj i rule: bpf_object__create_maps_from.induct)
  case (1 w tr obj i)
  show ?case
  proof (cases "i < length (o_maps obj)")
    case False
    with "1.prems" show ?thesis by (simp add: bpf_object__create_maps_from.simps [of w tr obj i])
  next
    case True
    note inb = this
    show ?thesis
    proof (cases "m_fd (o_maps obj ! i) \<ge> 0")
      case True
      with inb "1.prems" have "bpf_object__create_maps_from w tr obj (Suc i) = Some (err, obj', tr')"
        by (simp add: bpf_object__create_maps_from.simps [of w tr obj i])
      with "1.IH"(1) [OF inb refl True] show ?thesis by simp
    next
      case False
      note neg = this
      show ?thesis
      proof (cases "create_one_map w tr obj (o_maps obj ! i)")
        case None
        with inb neg "1.prems" show ?thesis
          by (simp add: bpf_object__create_maps_from.simps [of w tr obj i])
      next
        case (Some r)
        obtain mp1 tr1 where r: "r = (mp1, tr1)" by (cases r)
        let ?obj1 = "obj \<lparr> o_maps := (o_maps obj) [i := mp1] \<rparr>"
        show ?thesis
        proof (cases "m_fd mp1 < 0")
          case True
          with inb neg Some r "1.prems" show ?thesis
            by (auto simp add: bpf_object__create_maps_from.simps [of w tr obj i] Let_def
                split: prod.splits)
        next
          case False
          with inb neg Some r "1.prems"
          have "bpf_object__create_maps_from w tr1 ?obj1 (Suc i) = Some (err, obj', tr')"
            by (simp add: bpf_object__create_maps_from.simps [of w tr obj i] Let_def)
          with "1.IH"(2) [OF inb refl neg Some [unfolded r] refl refl False]
          show ?thesis by simp
        qed
      qed
    qed
  qed
qed

lemma relocate_from_frame:
  "bpf_object__relocate_from w tr obj i = Some (err, obj', tr') \<Longrightarrow> frame obj' = frame obj"
proof (induction w tr obj i rule: bpf_object__relocate_from.induct)
  case (1 w tr obj i)
  show ?case
  proof (cases "i < length (o_programs obj)")
    case False
    with "1.prems" show ?thesis by (simp add: bpf_object__relocate_from.simps [of w tr obj i])
  next
    case True
    note inb = this
    show ?thesis
    proof (cases "bpf_program__relocate w tr (o_programs obj ! i) obj")
      case None
      with inb "1.prems" show ?thesis
        by (simp add: bpf_object__relocate_from.simps [of w tr obj i])
    next
      case (Some r)
      obtain e prog1 tr1 where r: "r = (e, prog1, tr1)" by (cases r)
      let ?obj1 = "obj \<lparr> o_programs := (o_programs obj) [i := prog1] \<rparr>"
      show ?thesis
      proof (cases "e = 0")
        case False
        with inb Some r "1.prems" show ?thesis
          by (auto simp add: bpf_object__relocate_from.simps [of w tr obj i] Let_def)
      next
        case True
        with inb Some r "1.prems"
        have "bpf_object__relocate_from w tr1 ?obj1 (Suc i) = Some (err, obj', tr')"
          by (simp add: bpf_object__relocate_from.simps [of w tr obj i] Let_def)
        with "1.IH" [OF inb Some [unfolded r] refl refl refl] True
        show ?thesis by simp
      qed
    qed
  qed
qed

lemma load_progs_from_frame:
  "bpf_object__load_progs_from w tr obj i = Some (err, obj', tr') \<Longrightarrow> frame obj' = frame obj"
proof (induction w tr obj i rule: bpf_object__load_progs_from.induct)
  case (1 w tr obj i)
  show ?case
  proof (cases "i < length (o_programs obj)")
    case False
    with "1.prems" show ?thesis by (simp add: bpf_object__load_progs_from.simps [of w tr obj i])
  next
    case True
    note inb = this
    show ?thesis
    proof (cases "bpf_program__is_function_storage (o_programs obj ! i) obj")
      case True
      with inb "1.prems" have "bpf_object__load_progs_from w tr obj (Suc i) = Some (err, obj', tr')"
        by (simp add: bpf_object__load_progs_from.simps [of w tr obj i])
      with "1.IH"(1) [OF inb True] show ?thesis by simp
    next
      case False
      note nfs = this
      show ?thesis
      proof (cases "bpf_program__load w tr (o_programs obj ! i) (o_license obj) (o_kern_version obj)")
        case None
        with inb nfs "1.prems" show ?thesis
          by (simp add: bpf_object__load_progs_from.simps [of w tr obj i])
      next
        case (Some r)
        obtain e prog1 tr1 where r: "r = (e, prog1, tr1)" by (cases r)
        let ?obj1 = "obj \<lparr> o_programs := (o_programs obj) [i := prog1] \<rparr>"
        show ?thesis
        proof (cases "e = 0")
          case False
          with inb nfs Some r "1.prems" show ?thesis
            by (auto simp add: bpf_object__load_progs_from.simps [of w tr obj i] Let_def)
        next
          case True
          with inb nfs Some r "1.prems"
          have "bpf_object__load_progs_from w tr1 ?obj1 (Suc i) = Some (err, obj', tr')"
            by (simp add: bpf_object__load_progs_from.simps [of w tr obj i] Let_def)
          with "1.IH"(2) [OF inb nfs Some [unfolded r] refl refl refl] True
          show ?thesis by simp
        qed
      qed
    qed
  qed
qed

lemma unload_frame:
  "bpf_object__unload w tr obj = Some (err, obj', tr') \<Longrightarrow> frame obj' = frame obj"
  by (auto simp add: bpf_object__unload_def split: prod.splits option.splits)

lemma load_failed_frame:
  "load_failed w (e, obj, tr) = Some (err, obj', tr') \<Longrightarrow> frame obj' = frame obj"
  by (auto simp add: load_failed_def split: option.splits dest: unload_frame)

lemma frame_loaded: "frame a = frame b \<Longrightarrow> o_loaded a = o_loaded b"
  by (drule arg_cong [where f = o_loaded]) (simp add: frame_def)

lemma load_frame:
  assumes "bpf_object__load w tr obj = Some (err, obj', tr')" and "\<not> o_loaded obj"
  shows "frame obj' = frame (obj \<lparr> o_loaded := True \<rparr>)"
proof -
  let ?obj0 = "obj \<lparr> o_loaded := True \<rparr>"
  obtain e1 obj1 tr1 where c: "bpf_object__create_maps w tr ?obj0 = Some (e1, obj1, tr1)"
    using assms by (cases "bpf_object__create_maps w tr ?obj0") (auto simp add: bpf_object__load_def)
  have f1: "frame obj1 = frame ?obj0"
    using c create_maps_from_frame by (simp add: bpf_object__create_maps_def)
  show ?thesis
  proof (cases "e1 = 0")
    case False
    with assms c have "load_failed w (e1, obj1, tr1) = Some (err, obj', tr')"
      by (simp add: bpf_object__load_def)
    with f1 show ?thesis using load_failed_frame by metis
  next
    case True
    note e1 = this
    obtain e2 obj2 tr2 where r: "bpf_object__relocate w tr1 obj1 = Some (e2, obj2, tr2)"
      using assms c e1 by (cases "bpf_object__relocate w tr1 obj1") (auto simp add: bpf_object__load_def)
    have f2: "frame obj2 = frame obj1"
      using r relocate_from_frame by (simp add: bpf_object__relocate_def)
    show ?thesis
    proof (cases "e2 = 0")
      case False
      with assms c e1 r have "load_failed w (e2, obj2, tr2) = Some (err, obj', tr')"
        by (simp add: bpf_object__load_def)
      with f1 f2 show ?thesis using load_failed_frame by metis
    next
      case True
      note e2 = this
      obtain e3 obj3 tr3 where l: "bpf_object__load_progs w tr2 obj2 = Some (e3, obj3, tr3)"
        using assms c e1 r e2
        by (cases "bpf_object__load_progs w tr2 obj2") (auto simp add: bpf_object__load_def)
      have f3: "frame obj3 = frame obj2"
        using l load_progs_from_frame by (simp add: bpf_object__load_progs_def)
      show ?thesis
      proof (cases "e3 = 0")
        case False
        with assms c e1 r e2 l have "load_failed w (e3, obj3, tr3) = Some (err, obj', tr')"
          by (simp add: bpf_object__load_def)
        with f1 f2 f3 show ?thesis using load_failed_frame by metis
      next
        case True
        with assms c e1 r e2 l have "obj' = obj3"
          by (simp add: bpf_object__load_def)
        with f1 f2 f3 show ?thesis by simp
      qed
    qed
  qed
qed

lemma load_sets_loaded:
  assumes "bpf_object__load w tr obj = Some (err, obj', tr')"
  shows "o_loaded obj'"
proof (cases "o_loaded obj")
  case True
  with assms show ?thesis by (simp add: bpf_object__load_def)
next
  case False
  from load_frame [OF assms False] have "o_loaded obj' = o_loaded (obj \<lparr> o_loaded := True \<rparr>)"
    by (rule frame_loaded)
  then show ?thesis by simp
qed

text \<open>
  C4. Whatever the first call of \<open>bpf_object__load\<close> returned, success or failure, a
  second call on the object it left behind returns \<open>-EINVAL\<close>, changes nothing in the
  object (maps, programs, descriptors, loaded flag) and makes no call to the outside.
\<close>

theorem bpf_object__load_twice:
  assumes "bpf_object__load w tr obj = Some (err, obj', tr')"
  shows "bpf_object__load w' tr'' obj' = Some (- EINVAL, obj', tr'')"
  using load_sets_loaded [OF assms] by (simp add: bpf_object__load_def)

theorem bpf_object__load_twice_witness:
  "map_option fst (bpf_object__load ex_world_reject [] ex_obj) = Some (- LIBBPF_ERRNO__KVER)
   \<and> map_option (\<lambda>(err, obj', tr'). bpf_object__load ex_world_reject tr' obj'
                                        = Some (- EINVAL, obj', tr'))
        (bpf_object__load ex_world_reject [] ex_obj) = Some True
   \<and> map_option fst (bpf_object__load ex_world_accept [] ex_obj) = Some 0
   \<and> map_option (\<lambda>(err, obj', tr'). bpf_object__load ex_world_accept tr' obj'
                                        = Some (- EINVAL, obj', tr'))
        (bpf_object__load ex_world_accept [] ex_obj) = Some True"
proof -
  have e1: "map_option fst (bpf_object__load ex_world_reject [] ex_obj) = Some (- LIBBPF_ERRNO__KVER)"
    by (simp add: ex_defs load_defs LIBBPF_ERRNO__KVER_def)
  then obtain obj1 tr1
    where l1: "bpf_object__load ex_world_reject [] ex_obj = Some (- LIBBPF_ERRNO__KVER, obj1, tr1)"
    by (cases "bpf_object__load ex_world_reject [] ex_obj") auto
  have e2: "map_option fst (bpf_object__load ex_world_accept [] ex_obj) = Some 0"
    by (simp add: ex_defs load_defs)
  then obtain obj2 tr2
    where l2: "bpf_object__load ex_world_accept [] ex_obj = Some (0, obj2, tr2)"
    by (cases "bpf_object__load ex_world_accept [] ex_obj") auto
  show ?thesis
    using e1 e2 bpf_object__load_twice [OF l1, of ex_world_reject tr1]
      bpf_object__load_twice [OF l2, of ex_world_accept tr2]
    by (simp add: l1 l2)
qed

subsection \<open>The text program and the submission loop\<close>

lemma is_function_storage_programs [simp]:
  "bpf_program__is_function_storage p (obj \<lparr> o_programs := ps \<rparr>)
     = bpf_program__is_function_storage p obj"
  by (simp add: bpf_program__is_function_storage_def)

lemma load_progs_from_list:
  "i \<le> length (o_programs obj) \<Longrightarrow>
   bpf_object__load_progs_from w tr obj i =
     map_option (\<lambda>(err, progs, tr'). (err, obj \<lparr> o_programs := take i (o_programs obj) @ progs \<rparr>, tr'))
       (load_progs_list w tr (\<lambda>p. bpf_program__is_function_storage p obj) (o_license obj)
          (o_kern_version obj) (drop i (o_programs obj)))"
proof (induction w tr obj i rule: bpf_object__load_progs_from.induct)
  case (1 w tr obj i)
  let ?ps = "o_programs obj"
  show ?case
  proof (cases "i < length ?ps")
    case False
    with "1.prems" have "i = length ?ps" by simp
    then show ?thesis
      by (simp add: bpf_object__load_progs_from.simps [of w tr obj "length (o_programs obj)"])
  next
    case True
    note inb = this
    have dr: "drop i ?ps = ?ps ! i # drop (Suc i) ?ps"
      using inb by (simp add: Cons_nth_drop_Suc)
    have tk: "take (Suc i) ?ps = take i ?ps @ [?ps ! i]"
      using inb by (simp add: take_Suc_conv_app_nth)
    show ?thesis
    proof (cases "bpf_program__is_function_storage (?ps ! i) obj")
      case True
      have "bpf_object__load_progs_from w tr obj i = bpf_object__load_progs_from w tr obj (Suc i)"
        using inb True by (simp add: bpf_object__load_progs_from.simps [of w tr obj i])
      also have "\<dots> = map_option (\<lambda>(err, progs, tr'). (err, obj \<lparr> o_programs := take (Suc i) ?ps @ progs \<rparr>, tr'))
         (load_progs_list w tr (\<lambda>p. bpf_program__is_function_storage p obj) (o_license obj)
            (o_kern_version obj) (drop (Suc i) ?ps))"
        using "1.IH"(1) [OF inb True] inb by simp
      finally show ?thesis
        using True by (simp add: dr tk split: option.splits)
    next
      case False
      note nfs = this
      show ?thesis
      proof (cases "bpf_program__load w tr (?ps ! i) (o_license obj) (o_kern_version obj)")
        case None
        with inb nfs show ?thesis
          by (simp add: bpf_object__load_progs_from.simps [of w tr obj i] dr)
      next
        case (Some r)
        obtain e prog1 tr1 where r: "r = (e, prog1, tr1)" by (cases r)
        let ?obj1 = "obj \<lparr> o_programs := ?ps [i := prog1] \<rparr>"
        show ?thesis
        proof (cases "e = 0")
          case False
          with inb nfs Some r show ?thesis
            by (simp add: bpf_object__load_progs_from.simps [of w tr obj i] dr Let_def
                upd_conv_take_nth_drop)
        next
          case True
          have "bpf_object__load_progs_from w tr obj i = bpf_object__load_progs_from w tr1 ?obj1 (Suc i)"
            using inb nfs Some r True
            by (simp add: bpf_object__load_progs_from.simps [of w tr obj i] Let_def)
          also have "\<dots> = map_option (\<lambda>(err, progs, tr'). (err, ?obj1 \<lparr> o_programs := take (Suc i) (o_programs ?obj1) @ progs \<rparr>, tr'))
             (load_progs_list w tr1 (\<lambda>p. bpf_program__is_function_storage p ?obj1) (o_license ?obj1)
                (o_kern_version ?obj1) (drop (Suc i) (o_programs ?obj1)))"
            using "1.IH"(2) [OF inb nfs Some [unfolded r] refl refl refl] True inb by simp
          finally show ?thesis
            using nfs Some r True inb
            by (simp add: dr take_Suc_conv_app_nth split: option.splits)
        qed
      qed
    qed
  qed
qed

lemma load_instances_idx:
  "load_instances w tr prog prep license kern_version ns = Some (err, prog', tr')
     \<Longrightarrow> p_idx prog' = p_idx prog"
proof (induction ns arbitrary: tr prog)
  case Nil
  then show ?case by simp
next
  case (Cons n ns)
  from Cons.prems show ?case
    by (auto simp add: Let_def split: prod.splits if_splits option.splits dest!: Cons.IH)
qed

lemma bpf_program__load_idx:
  "bpf_program__load w tr prog license kern_version = Some (err, prog', tr')
     \<Longrightarrow> p_idx prog' = p_idx prog"
  unfolding bpf_program__load_def
  by (auto simp add: Let_def split: prod.splits if_splits option.splits dest!: load_instances_idx)

lemma load_progs_list_filter:
  assumes "\<And>p p'. p_idx p' = p_idx p \<Longrightarrow> skip p' = skip p"
    and "load_progs_list w tr skip license kern_version progs = Some (err, progs', tr')"
  shows "load_progs_list w tr skip license kern_version (filter (\<lambda>p. \<not> skip p) progs)
           = Some (err, filter (\<lambda>p. \<not> skip p) progs', tr')
         \<and> filter skip progs' = filter skip progs"
  using assms(2)
proof (induction progs arbitrary: tr err progs' tr')
  case Nil
  then show ?case by simp
next
  case (Cons p ps)
  show ?case
  proof (cases "skip p")
    case True
    with Cons.prems obtain ps1 where
      "load_progs_list w tr skip license kern_version ps = Some (err, ps1, tr')" "progs' = p # ps1"
      by (auto split: option.splits)
    with Cons.IH [OF this(1)] True show ?thesis by simp
  next
    case False
    with Cons.prems obtain e p1 tr1 where
      l: "bpf_program__load w tr p license kern_version = Some (e, p1, tr1)"
      by (auto split: option.splits)
    have "p_idx p1 = p_idx p" using l by (rule bpf_program__load_idx)
    then have s1: "\<not> skip p1" using assms(1) False by blast
    show ?thesis
    proof (cases "e = 0")
      case False
      with Cons.prems \<open>\<not> skip p\<close> l have "err = e" "progs' = p1 # ps" "tr' = tr1" by simp_all
      with \<open>\<not> skip p\<close> l False s1 show ?thesis by simp
    next
      case True
      with Cons.prems \<open>\<not> skip p\<close> l obtain ps2 where
        "load_progs_list w tr1 skip license kern_version ps = Some (err, ps2, tr')"
        "progs' = p1 # ps2"
        by (auto split: option.splits)
      with Cons.IH [OF this(1)] \<open>\<not> skip p\<close> l True s1 show ?thesis by simp
    qed
  qed
qed

text \<open>
  C7 (as amended). In an object that has local calls (\<open>has_pseudo_calls\<close>) the
  submission loop passes over every program of the text section: the loop returns the
  same code and makes the same calls to the outside as on the object without those
  programs, the other programs end in the same state, and the programs of the text
  section are left as they were (no instance descriptors, instructions kept).
\<close>

theorem bpf_object__load_progs_skips_text:
  assumes "o_has_pseudo_calls obj"
    and "bpf_object__load_progs w tr obj = Some (err, obj', tr')"
  shows "bpf_object__load_progs w tr
           (obj \<lparr> o_programs := filter (\<lambda>p. p_idx p \<noteq> o_text_shndx obj) (o_programs obj) \<rparr>)
         = Some (err,
                 obj' \<lparr> o_programs := filter (\<lambda>p. p_idx p \<noteq> o_text_shndx obj) (o_programs obj') \<rparr>,
                 tr')
         \<and> filter (\<lambda>p. p_idx p = o_text_shndx obj) (o_programs obj')
           = filter (\<lambda>p. p_idx p = o_text_shndx obj) (o_programs obj)"
proof -
  let ?skip = "\<lambda>p. bpf_program__is_function_storage p obj"
  let ?nt = "\<lambda>p. p_idx p \<noteq> o_text_shndx obj"
  let ?obj_nt = "obj \<lparr> o_programs := filter ?nt (o_programs obj) \<rparr>"
  have skip_eq: "?skip = (\<lambda>p. p_idx p = o_text_shndx obj)"
    using assms(1) by (simp add: bpf_program__is_function_storage_def)
  have nskip_eq: "(\<lambda>p. \<not> ?skip p) = ?nt"
    using assms(1) by (simp add: bpf_program__is_function_storage_def)
  from assms(2) obtain progs' where
    ll: "load_progs_list w tr ?skip (o_license obj) (o_kern_version obj) (o_programs obj)
          = Some (err, progs', tr')"
    and obj': "obj' = obj \<lparr> o_programs := progs' \<rparr>"
    by (auto simp add: bpf_object__load_progs_def load_progs_from_list)
  have "\<And>p p'. p_idx p' = p_idx p \<Longrightarrow> ?skip p' = ?skip p"
    by (simp add: bpf_program__is_function_storage_def)
  from load_progs_list_filter [of ?skip, OF this ll]
  have f: "load_progs_list w tr ?skip (o_license obj) (o_kern_version obj) (filter ?nt (o_programs obj))
           = Some (err, filter ?nt progs', tr')"
    and g: "filter ?skip progs' = filter ?skip (o_programs obj)"
    unfolding nskip_eq by simp_all
  have skip_nt: "(\<lambda>p. bpf_program__is_function_storage p ?obj_nt) = ?skip"
    by (simp add: bpf_program__is_function_storage_def)
  have "bpf_object__load_progs w tr ?obj_nt = Some (err, ?obj_nt \<lparr> o_programs := filter ?nt progs' \<rparr>, tr')"
    unfolding bpf_object__load_progs_def
    by (subst load_progs_from_list) (simp_all add: skip_nt f)
  moreover have "filter (\<lambda>p. p_idx p = o_text_shndx obj) progs'
                 = filter (\<lambda>p. p_idx p = o_text_shndx obj) (o_programs obj)"
    using g unfolding skip_eq .
  ultimately show ?thesis by (simp add: obj')
qed

theorem bpf_object__load_progs_skips_text_witness:
  "map_option fst (bpf_object__load_progs ex_world_accept [] ex_obj) = Some 0
   \<and> map_option (\<lambda>(err, obj', tr'). filter (\<lambda>p. p_idx p = 2) (o_programs obj'))
        (bpf_object__load_progs ex_world_accept [] ex_obj) = Some [ex_text]"
proof -
  have e: "map_option fst (bpf_object__load_progs ex_world_accept [] ex_obj) = Some 0"
    by (simp add: ex_defs load_defs)
  then obtain obj' tr' where l: "bpf_object__load_progs ex_world_accept [] ex_obj = Some (0, obj', tr')"
    by (cases "bpf_object__load_progs ex_world_accept [] ex_obj") auto
  have h: "o_has_pseudo_calls ex_obj" by (simp add: ex_obj_def)
  from bpf_object__load_progs_skips_text [OF h l]
  have "filter (\<lambda>p. p_idx p = o_text_shndx ex_obj) (o_programs obj')
          = filter (\<lambda>p. p_idx p = o_text_shndx ex_obj) (o_programs ex_obj)"
    by (rule conjunct2)
  then have "filter (\<lambda>p. p_idx p = 2) (o_programs obj') = [ex_text]"
    by (simp add: ex_obj_def ex_text_def ex_caller_def)
  with e l show ?thesis by simp
qed

text \<open>
  C7 as stated fails: in an object without local calls the program of the \<open>.text\<close>
  section is submitted like any other and receives an instance descriptor.
\<close>

theorem bpf_object__load_progs_text_counterexample:
  "bpf_object__load_progs ex_world_accept [] ex_obj_nocalls
     = Some (0, ex_obj_nocalls \<lparr> o_programs :=
                  [ex_text \<lparr> p_insns := None, p_insns_cnt := 0, p_instances_nr := 1,
                             p_instances_fds := Some [3] \<rparr>] \<rparr>,
             [Alloc, Alloc, ProgLoad ex_text_attr True])"
  by (simp add: ex_obj_nocalls_def ex_text_attr_def ex_defs load_defs)

subsection \<open>The map table: counting the map symbols\<close>

text \<open>
  C10. Let the object have a maps section (whose data libelf delivers) and a symbol
  table. If no symbol belongs to the maps section, \<open>bpf_object__init_maps\<close> returns 0
  and leaves the object, and so its empty map table, as it is, without any call to the
  outside: the return precedes the division by the count. If there are such symbols and
  the size of the section is zero or not a multiple of their number, the function
  returns \<open>-EINVAL\<close>, again with the object untouched and nothing allocated.
\<close>

theorem bpf_object__init_maps_count:
  fixes w tr obj symbols elf scn data
  defines "count \<equiv> length (filter (is_map_sym (o_maps_shndx obj)) (sym_entries symbols))"
  assumes "0 \<le> o_maps_shndx obj" and "o_symbols obj = Some symbols"
    and "o_elf obj = Some elf" and "elf_getscn elf (o_maps_shndx obj) = Some scn"
    and "scn_data scn = Some data" and "count < 2 ^ 31"
  shows "(count = 0 \<longrightarrow> bpf_object__init_maps w tr obj = Some (0, obj, tr))
       \<and> (count \<noteq> 0 \<and> (d_size data = 0 \<or> d_size data mod count \<noteq> 0)
            \<longrightarrow> bpf_object__init_maps w tr obj = Some (- EINVAL, obj, tr))"
  using assms(2-7) unfolding count_def
  by (simp add: bpf_object__init_maps_def Let_def)

subsection \<open>The map table: copying a definition record\<close>

lemma bytes_le_word: "bytes_of_u32 (le_word [a, b, c, d]) = [a, b, c, d]"
  unfolding bytes_of_u32_def le_word_def
  apply (simp add: upt_rec)
  apply (intro conjI; rule bit_word_eqI)
     apply (auto simp add: bit_simps dest: bit_imp_le_length)
  done

lemma bytes_of_def_of_bytes:
  assumes "length bs = 20"
  shows "bytes_of_def (def_of_bytes bs) = bs"
proof -
  obtain b0 b1 b2 b3 b4 b5 b6 b7 b8 b9 b10 b11 b12 b13 b14 b15 b16 b17 b18 b19
    where bs: "bs = [b0, b1, b2, b3, b4, b5, b6, b7, b8, b9, b10, b11, b12, b13, b14, b15, b16, b17, b18, b19]"
    using assms by (auto simp add: length_Suc_conv eval_nat_numeral)
  show ?thesis
    unfolding bs bytes_of_def_def def_of_bytes_def
    by (simp add: bytes_le_word)
qed

lemma bytes_of_zero_def: "bytes_of_def zero_map_def = replicate 20 0"
  by (simp add: bytes_of_def_def zero_map_def_def bytes_of_u32_def upt_rec eval_nat_numeral)

lemma scan_tail_all:
  "\<forall>i\<in>set ixs. i < length buf \<Longrightarrow> scan_tail buf ixs = Some (\<forall>i\<in>set ixs. buf ! i = 0)"
  by (induction ixs) auto

lemma tail_bytes_nonzero:
  assumes "ofs + D \<le> length buf"
  shows "(\<exists>b\<in>set (drop n (take D (drop ofs buf))). b \<noteq> 0)
           \<longleftrightarrow> (\<exists>i\<in>{ofs + n ..< ofs + D}. buf ! i \<noteq> 0)"
proof
  assume "\<exists>b\<in>set (drop n (take D (drop ofs buf))). b \<noteq> 0"
  then obtain k where k: "k < length (drop n (take D (drop ofs buf)))"
    and nz: "drop n (take D (drop ofs buf)) ! k \<noteq> 0"
    by (auto simp add: in_set_conv_nth)
  from k assms have "n + k < D" by simp
  with nz assms have "buf ! (ofs + (n + k)) \<noteq> 0" by (simp add: add.commute)
  moreover have "ofs + (n + k) \<in> {ofs + n ..< ofs + D}" using \<open>n + k < D\<close> by simp
  ultimately show "\<exists>i\<in>{ofs + n ..< ofs + D}. buf ! i \<noteq> 0" by blast
next
  assume "\<exists>i\<in>{ofs + n ..< ofs + D}. buf ! i \<noteq> 0"
  then obtain i where i: "ofs + n \<le> i" "i < ofs + D" and nz: "buf ! i \<noteq> 0" by auto
  let ?k = "i - (ofs + n)"
  have lk: "?k < length (drop n (take D (drop ofs buf)))" using i assms by simp
  have "drop n (take D (drop ofs buf)) ! ?k = buf ! i"
    using i assms by (simp add: add.commute)
  with nz lk show "\<exists>b\<in>set (drop n (take D (drop ofs buf))). b \<noteq> 0"
    by (metis nth_mem)
qed

lemma memcpy_zero_def:
  assumes "n \<le> 20" and "n \<le> length src"
  shows "bytes_of_def (memcpy_def zero_map_def src n) = take n src @ replicate (20 - n) 0"
proof -
  have "length (take n src @ drop n (replicate 20 (0 :: 8 word))) = 20"
    using assms by simp
  then show ?thesis
    unfolding memcpy_def_def bytes_of_zero_def
    by (simp add: bytes_of_def_of_bytes)
qed

lemma size_t_of_int_nat [simp]: "n < 2 ^ 31 \<Longrightarrow> size_t_of_int (int n) = n"
  by (simp add: size_t_of_int_def)

text \<open>
  C5. One map entry of per-entry size \<open>D\<close>, lying inside the section's data, for a map
  slot as \<open>calloc\<close> left it. If \<open>D\<close> is at most the native size (20 bytes) the entry
  is accepted and the definition record consists of the \<open>D\<close> bytes of the entry
  followed by zeros. If \<open>D\<close> exceeds the native size, the entry is rejected with
  \<open>-EINVAL\<close> exactly when a byte behind the first 20 is not zero, and otherwise the
  definition record consists of the first 20 bytes of the entry.
\<close>

theorem init_maps_entry_def_copy:
  fixes D :: nat and w tr elf obj data map_idx symb
  defines "entry \<equiv> take D (drop (st_value symb) (d_buf data))"
  defines "res \<equiv> init_maps_entry w tr elf obj data (int D) map_idx symb"
  assumes "map_idx < length (o_maps obj)"
    and "m_def (o_maps obj ! map_idx) = zero_map_def"
    and "elf_strptr elf (o_strtabidx obj) (st_name symb) = Some nm"
    and "w_alloc w tr"
    and "D < 2 ^ 31"
    and "st_value symb + D \<le> d_size data" and "d_size data \<le> length (d_buf data)"
    and "d_size data < 2 ^ 64"
  shows "(D \<le> sizeof_bpf_map_def \<longrightarrow>
            (\<exists>obj' tr'. res = Some (0, obj', tr')
               \<and> bytes_of_def (m_def (o_maps obj' ! map_idx))
                   = entry @ replicate (sizeof_bpf_map_def - D) 0))
       \<and> (sizeof_bpf_map_def < D \<longrightarrow>
            (if \<exists>b\<in>set (drop sizeof_bpf_map_def entry). b \<noteq> 0
             then \<exists>obj' tr'. res = Some (- EINVAL, obj', tr')
             else \<exists>obj' tr'. res = Some (0, obj', tr')
                    \<and> bytes_of_def (m_def (o_maps obj' ! map_idx))
                        = take sizeof_bpf_map_def entry))"
proof -
  let ?off = "st_value symb"
  have inb: "?off + D \<le> length (d_buf data)" using assms(8,9) by simp
  have nowrap: "(?off + D) mod 2 ^ 64 = ?off + D"
    using assms(8,10) by simp
  have chk: "\<not> d_size data < (?off + size_t_of_int (int D)) mod 2 ^ 64"
    using assms(7,8) nowrap by simp
  show ?thesis
  proof (intro conjI impI)
    assume small: "D \<le> sizeof_bpf_map_def"
    then have D20: "D \<le> 20" by (simp add: sizeof_bpf_map_def_def)
    have "bytes_of_def (memcpy_def zero_map_def (drop ?off (d_buf data)) D)
            = take D (drop ?off (d_buf data)) @ replicate (20 - D) 0"
      using D20 inb by (intro memcpy_zero_def) simp_all
    then show "\<exists>obj' tr'. res = Some (0, obj', tr')
               \<and> bytes_of_def (m_def (o_maps obj' ! map_idx))
                   = entry @ replicate (sizeof_bpf_map_def - D) 0"
      using assms(3-7) chk small inb
      unfolding res_def entry_def init_maps_entry_def
      by (simp add: Let_def sizeof_bpf_map_def_def)
  next
    assume big: "sizeof_bpf_map_def < D"
    then have D20: "20 < D" by (simp add: sizeof_bpf_map_def_def)
    have scan: "scan_tail (d_buf data) [?off + 20 ..< ?off + D]
                 = Some (\<forall>i\<in>{?off + 20 ..< ?off + D}. d_buf data ! i = 0)"
      using inb by (subst scan_tail_all) auto
    have tail: "(\<exists>b\<in>set (drop 20 entry). b \<noteq> 0)
                 \<longleftrightarrow> (\<exists>i\<in>{?off + 20 ..< ?off + D}. d_buf data ! i \<noteq> 0)"
      unfolding entry_def using inb by (rule tail_bytes_nonzero)
    have cp: "bytes_of_def (memcpy_def zero_map_def (drop ?off (d_buf data)) 20)
            = take 20 (drop ?off (d_buf data))"
      using D20 inb by (subst memcpy_zero_def) simp_all
    have t20: "take 20 entry = take 20 (drop ?off (d_buf data))"
      unfolding entry_def using D20 by (simp add: min_def)
    have natD: "nat (int ?off + int D) = ?off + D" by simp
    show "if \<exists>b\<in>set (drop sizeof_bpf_map_def entry). b \<noteq> 0
             then \<exists>obj' tr'. res = Some (- EINVAL, obj', tr')
             else \<exists>obj' tr'. res = Some (0, obj', tr')
                    \<and> bytes_of_def (m_def (o_maps obj' ! map_idx))
                        = take sizeof_bpf_map_def entry"
    proof (cases "\<exists>b\<in>set (drop 20 entry). b \<noteq> 0")
      case True
      then have "scan_tail (d_buf data) [?off + 20 ..< ?off + D] = Some False"
        using scan tail by auto
      then show ?thesis
        using assms(3-7) chk D20 True
        unfolding res_def init_maps_entry_def
        by (simp add: Let_def sizeof_bpf_map_def_def natD del: of_nat_add)
    next
      case False
      then have "scan_tail (d_buf data) [?off + 20 ..< ?off + D] = Some True"
        using scan tail by auto
      then show ?thesis
        using assms(3-7) chk D20 False inb cp t20
        unfolding res_def init_maps_entry_def
        by (simp add: Let_def sizeof_bpf_map_def_def natD del: of_nat_add)
    qed
  qed
qed

subsection \<open>The map table: order\<close>

lemma int_of_size_t_diff:
  assumes "- (2 ^ 31) \<le> d" and "d < 2 ^ 31"
  shows "int_of_size_t (nat (d mod 2 ^ 64)) = d"
proof -
  have nn: "0 \<le> d mod 2 ^ 64" by simp
  have s1: "(word_of_nat (nat (d mod 2 ^ 64)) :: 32 word) = word_of_int (d mod 2 ^ 64)"
    by (rule word_of_int_nat [symmetric]) (rule nn)
  have dv: "(2 :: int) ^ 32 dvd 2 ^ 64"
    by (rule le_imp_power_dvd) simp
  have "(d mod 2 ^ 64) mod 2 ^ 32 = d mod 2 ^ 32"
    using dv by (rule mod_mod_cancel)
  then have s2: "(word_of_int (d mod 2 ^ 64) :: 32 word) = word_of_int d"
    unfolding word_of_int_eq_iff take_bit_eq_mod by simp
  have s3: "sint (word_of_int d :: 32 word) = d"
    using assms by (simp add: signed_of_int signed_take_bit_int_eq_self)
  show ?thesis
    unfolding int_of_size_t_def s1 s2 s3 ..
qed

lemma compare_bpf_map_small:
  assumes "m_offset a < 2 ^ 31" and "m_offset b < 2 ^ 31"
  shows "compare_bpf_map a b = int (m_offset a) - int (m_offset b)"
  unfolding compare_bpf_map_def using assms by (intro int_of_size_t_diff) simp_all

lemma qsort_Nil [simp]: "qsort cmp [] = []"
  by (simp add: qsort_def)

lemma qsort_Cons [simp]: "qsort cmp (x # xs) = qsort_insert cmp x (qsort cmp xs)"
  by (simp add: qsort_def)

lemma set_qsort_insert [simp]: "set (qsort_insert cmp x ys) = insert x (set ys)"
  by (induction ys) auto

lemma set_qsort [simp]: "set (qsort cmp xs) = set xs"
  by (induction xs) simp_all

lemma length_qsort_insert [simp]: "length (qsort_insert cmp x ys) = Suc (length ys)"
  by (induction ys) auto

lemma length_qsort [simp]: "length (qsort cmp xs) = length xs"
  by (induction xs) simp_all

lemma distinct_qsort_insert:
  "distinct (map f (qsort_insert cmp x ys)) \<longleftrightarrow> f x \<notin> f ` set ys \<and> distinct (map f ys)"
  by (induction ys) auto

lemma distinct_qsort: "distinct (map f (qsort cmp xs)) \<longleftrightarrow> distinct (map f xs)"
  by (induction xs) (simp_all add: distinct_qsort_insert)

lemma sorted_qsort_insert:
  assumes "\<forall>y\<in>set (x # ys). m_offset y < 2 ^ 31" and "sorted (map m_offset ys)"
  shows "sorted (map m_offset (qsort_insert compare_bpf_map x ys))"
  using assms
proof (induction ys)
  case Nil
  then show ?case by simp
next
  case (Cons y ys)
  have c: "compare_bpf_map x y = int (m_offset x) - int (m_offset y)"
    using Cons.prems(1) by (intro compare_bpf_map_small) simp_all
  show ?case
  proof (cases "compare_bpf_map x y \<le> 0")
    case True
    with c have "m_offset x \<le> m_offset y" by simp
    with True Cons.prems(2) show ?thesis by auto
  next
    case False
    with c have "m_offset y \<le> m_offset x" by simp
    moreover have "sorted (map m_offset (qsort_insert compare_bpf_map x ys))"
      using Cons.prems by (intro Cons.IH) simp_all
    ultimately show ?thesis using False Cons.prems(2) by auto
  qed
qed

lemma sorted_qsort:
  "\<forall>y\<in>set xs. m_offset y < 2 ^ 31 \<Longrightarrow> sorted (map m_offset (qsort compare_bpf_map xs))"
proof (induction xs)
  case Nil
  then show ?case by simp
next
  case (Cons x xs)
  have "sorted (map m_offset (qsort_insert compare_bpf_map x (qsort compare_bpf_map xs)))"
    using Cons by (intro sorted_qsort_insert) simp_all
  then show ?case by simp
qed

lemma init_maps_entry_ok:
  assumes "init_maps_entry w tr elf obj data sz k symb = Some (0, obj', tr')"
  shows "k < length (o_maps obj) \<and>
         (\<exists>mp. o_maps obj' = (o_maps obj) [k := mp] \<and> m_offset mp = st_value symb)
         \<and> o_maps_shndx obj' = o_maps_shndx obj"
  using assms unfolding init_maps_entry_def
  by (auto simp add: Let_def EINVAL_def ENOMEM_def split: if_splits option.splits bool.splits)

lemma init_maps_fill_offsets:
  assumes "init_maps_fill w tr elf obj data sz k es = Some (0, obj', tr')"
  shows "length (o_maps obj') = length (o_maps obj)
         \<and> (\<forall>j<k. o_maps obj' ! j = o_maps obj ! j)
         \<and> (\<forall>j<length (map_sym_values (o_maps_shndx obj) es).
               k + j < length (o_maps obj)
               \<and> m_offset (o_maps obj' ! (k + j)) = map_sym_values (o_maps_shndx obj) es ! j)"
  using assms
proof (induction es arbitrary: tr obj k)
  case Nil
  then show ?case by (simp add: map_sym_values_def)
next
  case (Cons s es)
  show ?case
  proof (cases "is_map_sym (o_maps_shndx obj) s")
    case False
    then have "init_maps_fill w tr elf obj data sz k (s # es) = init_maps_fill w tr elf obj data sz k es"
      by (auto simp add: is_map_sym_def split: option.splits)
    with Cons.prems have "init_maps_fill w tr elf obj data sz k es = Some (0, obj', tr')" by simp
    from Cons.IH [OF this] False show ?thesis by (simp add: map_sym_values_def)
  next
    case True
    then obtain symb where s: "s = Some symb" and sh: "int (st_shndx symb) = o_maps_shndx obj"
      by (auto simp add: is_map_sym_def split: option.splits)
    from Cons.prems s sh obtain obj1 tr1 where
      e: "init_maps_entry w tr elf obj data sz k symb = Some (0, obj1, tr1)"
      and r: "init_maps_fill w tr1 elf obj1 data sz (Suc k) es = Some (0, obj', tr')"
      by (auto split: option.splits if_splits)
    from init_maps_entry_ok [OF e] obtain mp where
      k: "k < length (o_maps obj)" and m1: "o_maps obj1 = (o_maps obj) [k := mp]"
      and off: "m_offset mp = st_value symb" and shx: "o_maps_shndx obj1 = o_maps_shndx obj"
      by auto
    note IH = Cons.IH [OF r, unfolded shx]
    have len: "length (o_maps obj') = length (o_maps obj)" using IH m1 by simp
    have low: "\<forall>j<k. o_maps obj' ! j = o_maps obj ! j" using IH m1 by simp
    have atk: "o_maps obj' ! k = mp" using IH m1 k by simp
    have vals: "map_sym_values (o_maps_shndx obj) (s # es)
                 = st_value symb # map_sym_values (o_maps_shndx obj) es"
      using True s by (simp add: map_sym_values_def)
    have "k + j < length (o_maps obj)
          \<and> m_offset (o_maps obj' ! (k + j)) = map_sym_values (o_maps_shndx obj) (s # es) ! j"
      if "j < length (map_sym_values (o_maps_shndx obj) (s # es))" for j
    proof (cases j)
      case 0
      then show ?thesis using k atk off vals by simp
    next
      case (Suc j')
      with that vals have "j' < length (map_sym_values (o_maps_shndx obj) es)" by simp
      with IH m1 have "Suc k + j' < length (o_maps obj)
         \<and> m_offset (o_maps obj' ! (Suc k + j')) = map_sym_values (o_maps_shndx obj) es ! j'"
        by simp
      then show ?thesis using Suc vals by simp
    qed
    with len low show ?thesis by blast
  qed
qed

text \<open>
  C8. When \<open>bpf_object__init_maps\<close> succeeds on a fresh object whose map symbols have
  pairwise different values, all below \<open>2 ^ 31\<close> (offsets into a section smaller than
  2 GiB), the map table is strictly ascending in the byte offset, and its offsets are
  the values of the map symbols.
\<close>

theorem bpf_object__init_maps_sorted:
  assumes "bpf_object__init_maps w tr obj = Some (0, obj', tr')"
    and "o_maps obj = []" and "o_symbols obj = Some symbols"
    and "distinct (map_sym_values (o_maps_shndx obj) (sym_entries symbols))"
    and "\<forall>v\<in>set (map_sym_values (o_maps_shndx obj) (sym_entries symbols)). v < 2 ^ 31"
  shows "sorted_wrt (<) (map m_offset (o_maps obj'))
         \<and> set (map m_offset (o_maps obj')) = set (map_sym_values (o_maps_shndx obj) (sym_entries symbols))"
proof -
  let ?es = "sym_entries symbols"
  let ?vals = "map_sym_values (o_maps_shndx obj) ?es"
  let ?count = "length (filter (is_map_sym (o_maps_shndx obj)) ?es)"
  have lv: "length ?vals = ?count" by (simp add: map_sym_values_def)
  show ?thesis
  proof (cases "?count = 0")
    case True
    then have "?vals = []" using lv by simp
    moreover have "obj' = obj"
      using assms(1,3) True
      by (auto simp add: bpf_object__init_maps_def Let_def EINVAL_def ENOMEM_def
          split: if_splits option.splits)
    ultimately show ?thesis using assms(2) by simp
  next
    case False
    let ?obj1 = "obj \<lparr> o_maps := replicate ?count (zero_map \<lparr> m_fd := - 1 \<rparr>) \<rparr>"
    from assms(1,3) False obtain elf data sz tr1 obj2 where
      f: "init_maps_fill w tr1 elf ?obj1 data sz 0 ?es = Some (0, obj2, tr')"
      and o': "obj' = obj2 \<lparr> o_maps := qsort compare_bpf_map (o_maps obj2) \<rparr>"
      by (auto simp add: bpf_object__init_maps_def Let_def EINVAL_def ENOMEM_def
          split: if_splits option.splits)
    from init_maps_fill_offsets [OF f]
    have len: "length (o_maps obj2) = ?count"
      and vals: "\<forall>j<length ?vals. m_offset (o_maps obj2 ! j) = ?vals ! j"
      by simp_all
    have offs: "map m_offset (o_maps obj2) = ?vals"
      using len lv vals by (intro nth_equalityI) simp_all
    have small: "\<forall>y\<in>set (o_maps obj2). m_offset y < 2 ^ 31"
      using assms(5) offs by (metis image_eqI list.set_map)
    have "sorted (map m_offset (qsort compare_bpf_map (o_maps obj2)))"
      using small by (rule sorted_qsort)
    moreover have "distinct (map m_offset (qsort compare_bpf_map (o_maps obj2)))"
      using assms(4) offs by (simp add: distinct_qsort)
    ultimately have "sorted_wrt (<) (map m_offset (qsort compare_bpf_map (o_maps obj2)))"
      by (simp add: strict_sorted_iff)
    moreover have "set (map m_offset (qsort compare_bpf_map (o_maps obj2))) = set ?vals"
      using offs by (metis list.set_map set_qsort)
    ultimately show ?thesis by (simp add: o')
  qed
qed

subsection \<open>The map table of a concrete object file\<close>

lemmas elf_defs = ex_parse_obj_def ex_elf_def ex_symtab_def ex_maps_data_def ex_strtab_def
  ex_world_accept_def ex_world_reject_def

lemma ex_entries:
  "sym_entries ex_symtab =
     [Some \<lparr> st_name = 0, st_info = 0, st_shndx = 0, st_value = 0 \<rparr>,
      Some \<lparr> st_name = 1, st_info = 0x11, st_shndx = 1, st_value = 24 \<rparr>,
      Some \<lparr> st_name = 3, st_info = 0x11, st_shndx = 1, st_value = 0 \<rparr>]"
  by (simp add: sym_entries_def ex_symtab_def gelf_getsym_def sizeof_GElf_Sym_def upt_conv_Cons)

lemma ex_count: "length (filter (is_map_sym 1) (sym_entries ex_symtab)) = 2"
  by (simp add: ex_entries is_map_sym_def)

lemma ex_sz [simp]: "int_of_size_t 24 = 24" "size_t_of_int 24 = 24"
  by (simp_all add: int_of_size_t_def size_t_of_int_def)

lemma replicate_2: "replicate 2 x = [x, x]"
  by (simp add: numeral_2_eq_2)

lemma replicate_8: "replicate 8 x = [x, x, x, x, x, x, x, x]"
  by (simp add: numeral_eq_Suc)

lemma ex_init_maps:
  "map_option (\<lambda>(err, obj', tr'). (err, map m_offset (o_maps obj'), map m_name (o_maps obj'), tr'))
     (bpf_object__init_maps ex_world_accept [] ex_parse_obj)
   = Some (0, [0, 24], [Some ''a'', Some ''b''], [Alloc, Alloc, Alloc])"
  unfolding bpf_object__init_maps_def
  apply (simp add: ex_parse_obj_def elf_getscn_def ex_elf_def ex_maps_data_def
      ex_world_accept_def ex_world_reject_def Let_def ex_entries is_map_sym_def
      numeral_2_eq_2 [symmetric])
  apply (simp add: init_maps_entry_def Let_def sizeof_bpf_map_def_def replicate_2
      compare_bpf_map_small)
  done

theorem bpf_object__init_maps_sorted_witness:
  "map_option (\<lambda>(err, obj', tr'). (err, sorted_wrt (<) (map m_offset (o_maps obj'))))
     (bpf_object__init_maps ex_world_accept [] ex_parse_obj) = Some (0, True)"
proof -
  have "map_option fst (bpf_object__init_maps ex_world_accept [] ex_parse_obj) = Some 0"
    using ex_init_maps by (cases "bpf_object__init_maps ex_world_accept [] ex_parse_obj") auto
  then obtain obj' tr' where
    l: "bpf_object__init_maps ex_world_accept [] ex_parse_obj = Some (0, obj', tr')"
    by (cases "bpf_object__init_maps ex_world_accept [] ex_parse_obj") auto
  have v: "map_sym_values (o_maps_shndx ex_parse_obj) (sym_entries ex_symtab) = [24, 0]"
    by (simp add: map_sym_values_def ex_entries is_map_sym_def ex_parse_obj_def)
  have "sorted_wrt (<) (map m_offset (o_maps obj'))"
    using bpf_object__init_maps_sorted [OF l, of ex_symtab] v
    by (simp add: ex_parse_obj_def)
  with l show ?thesis by simp
qed

lemma ex_count5: "length (filter (is_map_sym 1) (sym_entries ex_symtab5)) = 5"
  by (simp add: sym_entries_def ex_symtab5_def gelf_getsym_def sizeof_GElf_Sym_def upt_conv_Cons
      is_map_sym_def)

theorem bpf_object__init_maps_count_witness:
  "bpf_object__init_maps ex_world_accept [] (ex_parse_obj \<lparr> o_maps_shndx := 2 \<rparr>)
     = Some (0, ex_parse_obj \<lparr> o_maps_shndx := 2 \<rparr>, [])
   \<and> bpf_object__init_maps ex_world_accept [] (ex_parse_obj \<lparr> o_symbols := Some ex_symtab5 \<rparr>)
     = Some (- EINVAL, ex_parse_obj \<lparr> o_symbols := Some ex_symtab5 \<rparr>, [])"
proof
  have c: "length (filter (is_map_sym 2) (sym_entries ex_symtab)) = 0"
    by (simp add: ex_entries is_map_sym_def)
  show "bpf_object__init_maps ex_world_accept [] (ex_parse_obj \<lparr> o_maps_shndx := 2 \<rparr>)
     = Some (0, ex_parse_obj \<lparr> o_maps_shndx := 2 \<rparr>, [])"
    using bpf_object__init_maps_count [where obj = "ex_parse_obj \<lparr> o_maps_shndx := 2 \<rparr>"
        and symbols = ex_symtab and elf = ex_elf and scn = "elf_scns ex_elf ! 1"
        and data = ex_symtab and w = ex_world_accept and tr = "[]"] c
    by (simp add: ex_parse_obj_def ex_elf_def elf_getscn_def)
next
  note c = ex_count5
  show "bpf_object__init_maps ex_world_accept [] (ex_parse_obj \<lparr> o_symbols := Some ex_symtab5 \<rparr>)
     = Some (- EINVAL, ex_parse_obj \<lparr> o_symbols := Some ex_symtab5 \<rparr>, [])"
    using bpf_object__init_maps_count [where obj = "ex_parse_obj \<lparr> o_symbols := Some ex_symtab5 \<rparr>"
        and symbols = ex_symtab5 and elf = ex_elf and scn = "elf_scns ex_elf ! 0"
        and data = ex_maps_data and w = ex_world_accept and tr = "[]"] c
    by (simp add: ex_parse_obj_def ex_elf_def elf_getscn_def ex_maps_data_def)
qed

theorem init_maps_entry_def_copy_witness:
  "(\<exists>obj' tr'. init_maps_entry ex_world_accept [] ex_elf ex_fill_obj ex_short_data 12 0 ex_map_sym
                  = Some (0, obj', tr')
      \<and> bytes_of_def (m_def (o_maps obj' ! 0))
          = [1, 0, 0, 0,  4, 0, 0, 0,  8, 0, 0, 0,  0, 0, 0, 0,  0, 0, 0, 0])
   \<and> (\<exists>obj' tr'. init_maps_entry ex_world_accept [] ex_elf ex_fill_obj ex_bad_data 24 0 ex_map_sym
                  = Some (- EINVAL, obj', tr'))
   \<and> (\<exists>obj' tr'. init_maps_entry ex_world_accept [] ex_elf ex_fill_obj ex_maps_data 24 0 ex_map_sym
                  = Some (0, obj', tr')
      \<and> bytes_of_def (m_def (o_maps obj' ! 0))
          = [1, 0, 0, 0,  4, 0, 0, 0,  8, 0, 0, 0,  16, 0, 0, 0,  0, 0, 0, 0])"
proof (intro conjI)
  show "\<exists>obj' tr'. init_maps_entry ex_world_accept [] ex_elf ex_fill_obj ex_short_data 12 0 ex_map_sym
                  = Some (0, obj', tr')
      \<and> bytes_of_def (m_def (o_maps obj' ! 0))
          = [1, 0, 0, 0,  4, 0, 0, 0,  8, 0, 0, 0,  0, 0, 0, 0,  0, 0, 0, 0]"
    using init_maps_entry_def_copy [where D = 12 and w = ex_world_accept and tr = "[]"
        and elf = ex_elf and obj = ex_fill_obj and data = ex_short_data and map_idx = 0
        and symb = ex_map_sym and nm = "''a''"]
    by (simp add: ex_fill_obj_def ex_parse_obj_def ex_elf_def ex_short_data_def ex_map_sym_def
        ex_world_accept_def ex_world_reject_def zero_map_def sizeof_bpf_map_def_def
        replicate_8)
next
  show "\<exists>obj' tr'. init_maps_entry ex_world_accept [] ex_elf ex_fill_obj ex_bad_data 24 0 ex_map_sym
                  = Some (- EINVAL, obj', tr')"
    using init_maps_entry_def_copy [where D = 24 and w = ex_world_accept and tr = "[]"
        and elf = ex_elf and obj = ex_fill_obj and data = ex_bad_data and map_idx = 0
        and symb = ex_map_sym and nm = "''a''"]
    by (simp add: ex_fill_obj_def ex_parse_obj_def ex_elf_def ex_bad_data_def ex_map_sym_def
        ex_world_accept_def ex_world_reject_def zero_map_def sizeof_bpf_map_def_def)
next
  show "\<exists>obj' tr'. init_maps_entry ex_world_accept [] ex_elf ex_fill_obj ex_maps_data 24 0 ex_map_sym
                  = Some (0, obj', tr')
      \<and> bytes_of_def (m_def (o_maps obj' ! 0))
          = [1, 0, 0, 0,  4, 0, 0, 0,  8, 0, 0, 0,  16, 0, 0, 0,  0, 0, 0, 0]"
    using init_maps_entry_def_copy [where D = 24 and w = ex_world_accept and tr = "[]"
        and elf = ex_elf and obj = ex_fill_obj and data = ex_maps_data and map_idx = 0
        and symb = ex_map_sym and nm = "''a''"]
    by (simp add: ex_fill_obj_def ex_parse_obj_def ex_elf_def ex_maps_data_def ex_map_sym_def
        ex_world_accept_def ex_world_reject_def zero_map_def sizeof_bpf_map_def_def)
qed

subsection \<open>The string table index after the sweep\<close>

text \<open>
  C6. When the sweep over the sections ends without error and the index of the string
  table is zero or not below the number of sections seen, \<open>bpf_object__elf_collect\<close>
  returns \<open>LIBBPF_ERRNO__FORMAT\<close>, a positive number: the statement at libbpf.c:851
  lacks the minus sign that every other error return of the function carries.
  \<open>__bpf_object__open\<close> passes the number through \<open>ERR_PTR\<close>; the pointer it returns
  is not recognised by \<open>IS_ERR\<close>, and \<open>libbpf_get_error\<close> reports 0 for it, while
  the negated code would be recognised.
\<close>

theorem bpf_object__elf_collect_strtab:
  assumes "o_elf obj = Some elf" and "elf_shstr_rawdata elf"
    and "elf_collect_loop w pw tr obj 0 (elf_scns elf) = Some (0, obj1, tr1, idx)"
    and "o_strtabidx obj1 = 0 \<or> idx \<le> int (o_strtabidx obj1)"
  shows "bpf_object__elf_collect w pw tr obj = Some (LIBBPF_ERRNO__FORMAT, obj1, tr1)
         \<and> \<not> IS_ERR (ERR_PTR LIBBPF_ERRNO__FORMAT)
         \<and> libbpf_get_error (ERR_PTR LIBBPF_ERRNO__FORMAT) = 0
         \<and> IS_ERR (ERR_PTR (- LIBBPF_ERRNO__FORMAT))"
  using assms
  by (auto simp add: bpf_object__elf_collect_def ERR_PTR_def MAX_ERRNO_def LIBBPF_ERRNO__FORMAT_def
      libbpf_get_error_def)

text \<open>
  An object file with the sections \<open>license\<close> and \<open>.strtab\<close>, without symbol table:
  the sweep succeeds, the string table index stays 0, and the caller of
  \<open>__bpf_object__open\<close> receives the address 4001, after the object has been closed.
\<close>

theorem bpf_object__elf_collect_strtab_witness:
  "bpf_object__elf_collect ex_world_accept (ex_parse_world ex_elf_nosymtab) []
       ((bpf_object__new ''a.o'' 0) \<lparr> o_elf := Some ex_elf_nosymtab \<rparr>)
     = Some (LIBBPF_ERRNO__FORMAT,
             (bpf_object__new ''a.o'' 0) \<lparr> o_elf := Some ex_elf_nosymtab, o_license := ''GPL'' \<rparr>,
             [])
   \<and> bpf_object__open_internal ex_world_accept (ex_parse_world ex_elf_nosymtab) [] ''a.o'' 0 True
     = Some (Address 4001, [Alloc, OpenFile ''a.o'', ElfBegin, ElfEnd, Close 3, BtfFree])
   \<and> \<not> IS_ERR (Address 4001) \<and> libbpf_get_error (Address 4001) = 0"
proof (intro conjI)
  let ?obj = "(bpf_object__new ''a.o'' 0) \<lparr> o_elf := Some ex_elf_nosymtab \<rparr>"
  have sweep: "elf_collect_loop ex_world_accept (ex_parse_world ex_elf_nosymtab) [] ?obj 0
                 (elf_scns ex_elf_nosymtab)
               = Some (0, ?obj \<lparr> o_license := ''GPL'' \<rparr>, [], 2)"
    by (simp add: ex_elf_nosymtab_def elf_collect_section_def ex_license_data_def
        bpf_object__init_license_def Let_def bpf_object__new_def c_string_def char_of_def
        bit_0 bit_Suc BTF_ELF_SEC_def SHT_SYMTAB_def SHT_PROGBITS_def SHT_REL_def)
  show "bpf_object__elf_collect ex_world_accept (ex_parse_world ex_elf_nosymtab) [] ?obj
     = Some (LIBBPF_ERRNO__FORMAT,
             (bpf_object__new ''a.o'' 0) \<lparr> o_elf := Some ex_elf_nosymtab, o_license := ''GPL'' \<rparr>,
             [])"
    using bpf_object__elf_collect_strtab [OF _ _ sweep]
    by (simp add: bpf_object__new_def ex_elf_nosymtab_def)
  show "bpf_object__open_internal ex_world_accept (ex_parse_world ex_elf_nosymtab) [] ''a.o'' 0 True
     = Some (Address 4001, [Alloc, OpenFile ''a.o'', ElfBegin, ElfEnd, Close 3, BtfFree])"
    by (simp add: bpf_object__open_internal_def ex_parse_world_def ex_world_accept_def
      ex_world_reject_def bpf_object__elf_init_def bpf_object__new_def Let_def
      ex_elf_nosymtab_def ET_REL_def EM_BPF_def bpf_object__check_endianness_def ELFDATA2LSB_def
      bpf_object__elf_collect_def elf_collect_section_def ex_license_data_def
      BTF_ELF_SEC_def SHT_SYMTAB_def SHT_PROGBITS_def SHT_REL_def
      bpf_object__init_license_def open_failed_def bpf_object__close_def
      bpf_object__elf_finish_def zclose_def bpf_object__unload_def ERR_PTR_def
      LIBBPF_ERRNO__FORMAT_def)
  show "\<not> IS_ERR (Address 4001)"
    by (simp add: MAX_ERRNO_def)
  show "libbpf_get_error (Address 4001) = 0"
    by (simp add: libbpf_get_error_def MAX_ERRNO_def)
qed

end
